theory Spec2Isabelle
  imports Complex_Main "HOL-Library.Word"
begin

unbundle bit_operations_syntax

section \<open>Numbers, strings and errors\<close>

text \<open>
  A JavaScript \<open>number\<close> is modelled as an exact \<^typ>\<open>real\<close>: the scoring tables
  compare against decimal constants and return decimal constants, and the vector
  arithmetic is the arithmetic of the reals.  Rounding of IEEE doubles is not modelled.
  Array lengths, loop indices and counts are \<^typ>\<open>nat\<close>.
\<close>

text \<open>
  Exceptions: a JavaScript \<open>Error\<close> with its message, the error of \<open>loadFeatures\<close>,
  and the two error kinds of the specification that the claims name.
\<close>

datatype error =
    JsError string
  | NotFoundError string
  | DimensionMismatchError
  | DuplicateTrackError

subsection \<open>\<open>parseInt\<close> and \<open>slice(-1)\<close>\<close>

text \<open>
  \<open>parseInt(s)\<close> without a radix: leading white space is skipped, one sign is read, a
  \<open>0x\<close>/\<open>0X\<close> prefix selects base 16, and the longest prefix of digits is the value.
  With no digit the result is \<open>NaN\<close>, here \<open>None\<close>.
\<close>

definition isWhiteSpace :: "char \<Rightarrow> bool" where
  "isWhiteSpace c = (c \<in> set [CHR '' '', CHR 0x09, CHR 0x0A, CHR 0x0B, CHR 0x0C, CHR 0x0D])"

definition digitValue :: "char \<Rightarrow> nat option" where
  "digitValue c =
     (let n = (of_char c :: nat) in
      if 48 \<le> n \<and> n \<le> 57 then Some (n - 48)
      else if 97 \<le> n \<and> n \<le> 102 then Some (n - 87)
      else if 65 \<le> n \<and> n \<le> 70 then Some (n - 55)
      else None)"

fun parseDigits :: "nat \<Rightarrow> string \<Rightarrow> nat option \<Rightarrow> nat option" where
  "parseDigits radix [] acc = acc"
| "parseDigits radix (c # cs) acc =
     (case digitValue c of
        None \<Rightarrow> acc
      | Some d \<Rightarrow>
          if d < radix
          then parseDigits radix cs (Some ((case acc of None \<Rightarrow> 0 | Some a \<Rightarrow> a) * radix + d))
          else acc)"

definition parseInt :: "string \<Rightarrow> int option" where
  "parseInt s =
     (let t = dropWhile isWhiteSpace s;
          neg = (t \<noteq> [] \<and> hd t = CHR ''-'');
          u = (if t \<noteq> [] \<and> (hd t = CHR ''-'' \<or> hd t = CHR ''+'') then tl t else t);
          hex = (take 2 u = ''0x'' \<or> take 2 u = ''0X'');
          r = (if hex then parseDigits 16 (drop 2 u) None else parseDigits 10 u None)
      in case r of
           None \<Rightarrow> None
         | Some n \<Rightarrow> Some (if neg then - int n else int n))"

text \<open>\<open>s.slice(-1)\<close>: the last character as a string, the empty string for \<open>""\<close>.\<close>

definition sliceLast :: "string \<Rightarrow> string" where
  "sliceLast s = (if s = [] then [] else [last s])"

section \<open>Key, tempo and energy scores\<close>

text \<open>
  \<open>isKeyCompatible\<close> (analysis.ts).  \<open>numA === numB\<close> is false when either number is
  \<open>NaN\<close>, and so is every comparison of \<open>Math.abs(numA - numB)\<close>.
\<close>

definition isKeyCompatible :: "string \<Rightarrow> string \<Rightarrow> bool" where
  "isKeyCompatible keyA keyB =
     (if keyA = keyB then True
      else
        let numA = parseInt keyA;
            numB = parseInt keyB;
            letterA = sliceLast keyA;
            letterB = sliceLast keyB
        in if numA \<noteq> None \<and> numA = numB \<and> letterA \<noteq> letterB then True
           else if letterA = letterB \<and>
                   (case (numA, numB) of
                      (Some a, Some b) \<Rightarrow> \<bar>a - b\<bar> = 1 \<or> \<bar>a - b\<bar> = 11
                    | _ \<Rightarrow> False)
                then True
                else False)"

definition keyScore :: "string \<Rightarrow> string \<Rightarrow> real" where
  "keyScore keyA keyB =
     (if keyA = keyB then 1
      else if isKeyCompatible keyA keyB then 5 / 10
      else 0)"

text \<open>\<open>harmonicScore\<close> (candidates.ts and the recommendation module, same body).\<close>

definition harmonicScore :: "string \<Rightarrow> string \<Rightarrow> real" where
  "harmonicScore keyA keyB =
     (let baseScore = keyScore keyA keyB in
      if baseScore \<ge> 95 / 100 then 1
      else if baseScore \<ge> 85 / 100 then 95 / 100
      else if baseScore \<ge> 70 / 100 then 85 / 100
      else if baseScore \<ge> 50 / 100 then 65 / 100
      else baseScore * (5 / 10))"

definition tempoScore :: "real \<Rightarrow> real \<Rightarrow> real" where
  "tempoScore bpmA bpmB =
     (let diff = \<bar>bpmA - bpmB\<bar> in
      if diff = 0 then 1
      else if diff \<le> 2 then 95 / 100
      else if diff \<le> 5 then 85 / 100
      else if diff \<le> 10 then 70 / 100
      else if diff \<le> 15 then 50 / 100
      else if diff \<le> 20 then 30 / 100
      else 10 / 100)"

definition energyTransitionScore :: "real \<Rightarrow> real \<Rightarrow> real" where
  "energyTransitionScore energyA energyB =
     (let diff = energyB - energyA in
      if \<bar>diff\<bar> \<le> 5 / 10 then 1
      else if diff > 0 \<and> diff \<le> 2 then 90 / 100
      else if diff > 2 \<and> diff \<le> 4 then 75 / 100
      else if diff < 0 \<and> diff \<ge> - 2 then 85 / 100
      else if diff < - 2 \<and> diff \<ge> - 4 then 70 / 100
      else if \<bar>diff\<bar> \<le> 6 then 50 / 100
      else 20 / 100)"

text \<open>The 24 Camelot tokens, in the order of the table in \<open>estimateKey\<close>.\<close>

definition camelotKeys :: "string list" where
  "camelotKeys =
     [''1A'', ''1B'', ''2A'', ''2B'', ''3A'', ''3B'', ''4A'', ''4B'',
      ''5A'', ''5B'', ''6A'', ''6B'', ''7A'', ''7B'', ''8A'', ''8B'',
      ''9A'', ''9B'', ''10A'', ''10B'', ''11A'', ''11B'', ''12A'', ''12B'']"

section \<open>Cosine similarity\<close>

text \<open>The loop of \<open>cosineSimilarity\<close>: one pass accumulating \<open>dot\<close>, \<open>normA\<close>, \<open>normB\<close>.\<close>

fun cosineLoop :: "real list \<Rightarrow> real list \<Rightarrow> real \<times> real \<times> real \<Rightarrow> real \<times> real \<times> real" where
  "cosineLoop (a # as) (b # bs) (dot, normA, normB) =
     cosineLoop as bs (dot + a * b, normA + a * a, normB + b * b)"
| "cosineLoop _ _ acc = acc"

definition cosineSimilarity :: "real list \<Rightarrow> real list \<Rightarrow> real" where
  "cosineSimilarity vecA vecB =
     (if length vecA \<noteq> length vecB then 0
      else
        case cosineLoop vecA vecB (0, 0, 0) of
          (dot, normA, normB) \<Rightarrow>
            if normA = 0 \<or> normB = 0 then 0
            else dot / (sqrt normA * sqrt normB))"

text \<open>
  The contract of the specification, in its words: standard dot product over the
  product of the norms, \<open>DimensionMismatchError\<close> for unequal lengths, \<open>0\<close> when either
  vector is all-zero.
\<close>

definition dotProduct :: "real list \<Rightarrow> real list \<Rightarrow> real" where
  "dotProduct a b = (\<Sum>(x, y) \<leftarrow> zip a b. x * y)"

definition norm2 :: "real list \<Rightarrow> real" where
  "norm2 a = sqrt (dotProduct a a)"

definition allZero :: "real list \<Rightarrow> bool" where
  "allZero a = list_all (\<lambda>x. x = 0) a"

definition cosineSimilarity_spec :: "real list \<Rightarrow> real list \<Rightarrow> error + real" where
  "cosineSimilarity_spec a b =
     (if length a \<noteq> length b then Inl DimensionMismatchError
      else if allZero a \<or> allZero b then Inr 0
      else Inr (dotProduct a b / (norm2 a * norm2 b)))"

section \<open>Stored data\<close>

record TrackSummary =
  tempo_bpm :: real
  key :: string
  energy :: real
  duration :: real
  phrases :: nat
  bars :: nat

datatype status = Queued | Processing | Ready | Error

record TrackManifest =
  track_id :: string
  status :: status
  artist :: "string option"
  title :: "string option"
  file_size :: nat
  file_path :: string
  content_digest :: string
  summary :: "TrackSummary option"
  error_reason :: "string option"
  created_at :: nat
  updated_at :: nat

text \<open>
  The feature directory of a track: \<open>bar_vecs.json\<close>, \<open>phrase_vecs.json\<close>,
  \<open>summary.json\<close> and, when present, \<open>waveform.json\<close>.  \<open>JSON.stringify\<close> writes
  \<open>NaN\<close> and \<open>\<plusminus>Infinity\<close> as \<open>null\<close>, and \<open>null\<close> counts as 0 in the arithmetic of
  every reader (\<open>null * x\<close>, \<open>vec[i] || 0\<close>), so that a stored vector is a list of reals.
\<close>

record Features =
  barVecs :: "real list list"
  phraseVecs :: "real list list"
  fsummary :: TrackSummary
  waveform :: "real list option"

text \<open>
  The storage directory: \<open>manifests.json\<close> is an object, kept as an association list
  in insertion order (the order of \<open>Object.values\<close>); the feature directories and the
  audio files are maps from track id and from path.
\<close>

record Storage =
  manifests :: "(string \<times> TrackManifest) list"
  features :: "string \<rightharpoonup> Features"
  files :: "string \<rightharpoonup> 8 word list"

fun setKey :: "string \<Rightarrow> 'v \<Rightarrow> (string \<times> 'v) list \<Rightarrow> (string \<times> 'v) list" where
  "setKey k v [] = [(k, v)]"
| "setKey k v (p # ps) = (if fst p = k then (k, v) # ps else p # setKey k v ps)"

definition getManifest :: "Storage \<Rightarrow> string \<Rightarrow> TrackManifest option" where
  "getManifest st tid = map_of (manifests st) tid"

definition saveManifest :: "Storage \<Rightarrow> TrackManifest \<Rightarrow> Storage" where
  "saveManifest st m = st\<lparr>manifests := setKey (track_id m) m (manifests st)\<rparr>"

definition loadFeatures :: "Storage \<Rightarrow> string \<Rightarrow> error + Features" where
  "loadFeatures st tid =
     (case features st tid of
        None \<Rightarrow> Inl (NotFoundError (''Features not found for track '' @ tid))
      | Some f \<Rightarrow> Inr f)"

text \<open>
  \<open>xs.slice(0, k)\<close> for an integer \<open>k\<close> (a negative end counts from the end of the
  array), and the stable \<open>sort((a, b) => b.score - a.score)\<close>.
\<close>

definition slice0 :: "int \<Rightarrow> 'a list \<Rightarrow> 'a list" where
  "slice0 k xs = (if k < 0 then take (nat (int (length xs) + k)) xs else take (nat k) xs)"

definition sortDesc :: "('a \<Rightarrow> real) \<Rightarrow> 'a list \<Rightarrow> 'a list" where
  "sortDesc f xs = sort_key (\<lambda>x. - f x) xs"

section \<open>Transition candidates\<close>

record CandidateScores =
  s_key :: real
  s_energy :: real
  s_timing :: real
  s_contour :: real
  s_tempo :: real

record TransitionCandidate =
  from_position :: real
  to_position :: real
  score :: real
  scores :: CandidateScores

definition totalScore :: "real \<Rightarrow> real \<Rightarrow> real \<Rightarrow> real \<Rightarrow> real \<Rightarrow> real" where
  "totalScore kScore tScore eScore timingScore contourScore =
     30 / 100 * kScore + 25 / 100 * tScore + 20 / 100 * eScore
       + 15 / 100 * timingScore + 10 / 100 * contourScore"

text \<open>The body of the two nested loops of \<open>generateCandidates\<close> at indices \<open>i\<close>, \<open>j\<close>.\<close>

definition candidateAt ::
  "TrackSummary \<Rightarrow> TrackSummary \<Rightarrow> real list list \<Rightarrow> real list list \<Rightarrow> nat \<Rightarrow> nat
     \<Rightarrow> TransitionCandidate" where
  "candidateAt summaryA summaryB phrasesA phrasesB i j =
     (let kScore = harmonicScore (key summaryA) (key summaryB);
          eScore = energyTransitionScore (energy summaryA) (energy summaryB);
          tScore = tempoScore (tempo_bpm summaryA) (tempo_bpm summaryB);
          positionA = real i / real (length phrasesA);
          positionB = real j / real (length phrasesB);
          timingScore = 5 / 10 + 3 / 10 * (1 - positionA) + 2 / 10 * positionB;
          contourScore = cosineSimilarity (phrasesA ! i) (phrasesB ! j)
      in \<lparr>from_position = real i / real (length phrasesA) * duration summaryA,
          to_position = real j / real (length phrasesB) * duration summaryB,
          score = totalScore kScore tScore eScore timingScore contourScore,
          scores = \<lparr>s_key = kScore, s_energy = eScore, s_timing = timingScore,
                     s_contour = contourScore, s_tempo = tScore\<rparr>\<rparr>)"

definition startA :: "'a list \<Rightarrow> nat" where
  "startA phrasesA = nat (max 0 \<lfloor>real (length phrasesA) * (7 / 10)\<rfloor>)"

definition endB :: "'a list \<Rightarrow> nat" where
  "endB phrasesB = nat (min (int (length phrasesB)) \<lfloor>real (length phrasesB) * (3 / 10)\<rfloor>)"

definition candidateLoop ::
  "TrackSummary \<Rightarrow> TrackSummary \<Rightarrow> real list list \<Rightarrow> real list list
     \<Rightarrow> TransitionCandidate list" where
  "candidateLoop summaryA summaryB phrasesA phrasesB =
     concat (map (\<lambda>i.
       concat (map (\<lambda>j.
         let c = candidateAt summaryA summaryB phrasesA phrasesB i j
         in if score c > 4 / 10 then [c] else [])
       [0 ..< endB phrasesB]))
     [startA phrasesA ..< length phrasesA])"

definition manifestSummary :: "Storage \<Rightarrow> string \<Rightarrow> TrackSummary option" where
  "manifestSummary st tid = (case getManifest st tid of None \<Rightarrow> None | Some m \<Rightarrow> summary m)"

definition generateCandidates ::
  "Storage \<Rightarrow> string \<Rightarrow> string \<Rightarrow> int \<Rightarrow> error + TransitionCandidate list" where
  "generateCandidates st trackA_id trackB_id k =
     (case loadFeatures st trackA_id of
        Inl e \<Rightarrow> Inl e
      | Inr featuresA \<Rightarrow>
     (case loadFeatures st trackB_id of
        Inl e \<Rightarrow> Inl e
      | Inr featuresB \<Rightarrow>
     (case (manifestSummary st trackA_id, manifestSummary st trackB_id) of
        (Some summaryA, Some summaryB) \<Rightarrow>
          Inr (slice0 k (sortDesc score
            (candidateLoop summaryA summaryB (phraseVecs featuresA) (phraseVecs featuresB))))
      | _ \<Rightarrow> Inl (JsError ''Track summaries not available''))))"

section \<open>Similarity search\<close>

datatype scope = Bar | Phrase

record SearchResult =
  r_track_id :: string
  r_position :: real
  r_score :: real

definition scopeVectors :: "scope \<Rightarrow> Features \<Rightarrow> real list list" where
  "scopeVectors sc f = (case sc of Bar \<Rightarrow> barVecs f | Phrase \<Rightarrow> phraseVecs f)"

text \<open>
  The index of the reference vector,
  \<open>Math.min(Math.floor((position / duration) * n), n - 1)\<close>, and the lookup at it.
  The lookup is \<open>undefined\<close> (\<open>None\<close>) at a negative index and at \<open>NaN\<close>; a division by
  the duration 0 gives \<open>+Infinity\<close> for a positive position, capped to \<open>n - 1\<close>,
  \<open>-Infinity\<close> for a negative one and \<open>NaN\<close> for 0.
\<close>

definition refIndex :: "real \<Rightarrow> real \<Rightarrow> nat \<Rightarrow> nat option" where
  "refIndex position dur n =
     (if dur = 0 then (if position > 0 \<and> n > 0 then Some (n - 1) else None)
      else
        let idx = min \<lfloor>position / dur * real n\<rfloor> (int n - 1)
        in if 0 \<le> idx then Some (nat idx) else None)"

definition refVector :: "Features \<Rightarrow> real \<Rightarrow> scope \<Rightarrow> real list option" where
  "refVector f position sc =
     (case refIndex position (duration (fsummary f)) (length (scopeVectors sc f)) of
        None \<Rightarrow> None
      | Some i \<Rightarrow> Some (scopeVectors sc f ! i))"

text \<open>
  One iteration of the loop over the library.  With an \<open>undefined\<close> reference vector
  the first call of \<open>cosineSimilarity\<close> throws, the \<open>catch\<close> skips the track and nothing
  has been pushed.
\<close>

definition scanTrack :: "Storage \<Rightarrow> real list option \<Rightarrow> scope \<Rightarrow> TrackManifest \<Rightarrow> SearchResult list" where
  "scanTrack st refVec sc manifest =
     (if status manifest \<noteq> Ready \<or> summary manifest = None then []
      else
        case loadFeatures st (track_id manifest) of
          Inl e \<Rightarrow> []
        | Inr trackFeatures \<Rightarrow>
            (case refVec of
               None \<Rightarrow> []
             | Some v \<Rightarrow>
                 let vectors = scopeVectors sc trackFeatures
                 in map (\<lambda>i.
                      \<lparr>r_track_id = track_id manifest,
                       r_position = real i / real (length vectors) * duration (fsummary trackFeatures),
                       r_score = cosineSimilarity v (vectors ! i)\<rparr>)
                    [0 ..< length vectors]))"

definition searchScan :: "Storage \<Rightarrow> Features \<Rightarrow> real \<Rightarrow> scope \<Rightarrow> SearchResult list" where
  "searchScan st f position sc =
     concat (map (\<lambda>(k, manifest). scanTrack st (refVector f position sc) sc manifest) (manifests st))"

definition searchSimilar ::
  "Storage \<Rightarrow> string \<Rightarrow> real \<Rightarrow> scope \<Rightarrow> int \<Rightarrow> error + SearchResult list" where
  "searchSimilar st tid position sc k =
     (case loadFeatures st tid of
        Inl e \<Rightarrow> Inl e
      | Inr f \<Rightarrow> Inr (slice0 k (sortDesc r_score (searchScan st f position sc))))"

section \<open>Track recommendations\<close>

record RecScores =
  harmonic :: real
  tempo :: real
  r_energy :: real
  texture :: real
  phrase :: real
  overall :: real

record BestTransition =
  fromPosition :: real
  toPosition :: real
  bt_score :: real

record SimilarSegment =
  seg_position :: real
  seg_score :: real

record Track =
  t_id :: string
  t_title :: string
  t_artist :: string
  t_bpm :: real
  t_key :: string
  t_energy :: real
  t_duration :: real
  t_phrases :: nat
  t_waveform :: "real list"

record TrackRecommendation =
  track :: Track
  rec_score :: real
  rec_scores :: RecScores
  bestTransition :: "BestTransition option"
  similarSegments :: "SimilarSegment list"

record RecOptions =
  limit :: "int option"
  minScore :: "real option"
  excludeTrackIds :: "string list option"

definition overallScore :: "real \<Rightarrow> real \<Rightarrow> real \<Rightarrow> real \<Rightarrow> real \<Rightarrow> real" where
  "overallScore h t e tx ph =
     30 / 100 * h + 25 / 100 * t + 20 / 100 * e + 15 / 100 * tx + 10 / 100 * ph"

text \<open>
  The average phrase vector: a \<open>reduce\<close> from a zero vector of the length of the first
  phrase vector, adding \<open>vec[i] || 0\<close>, divided by the number of phrase vectors.
\<close>

definition addPhrase :: "real list \<Rightarrow> real list \<Rightarrow> real list" where
  "addPhrase acc vec =
     map (\<lambda>(val, i). val + (if i < length vec then vec ! i else 0)) (zip acc [0 ..< length acc])"

definition avgPhrase :: "real list list \<Rightarrow> real list" where
  "avgPhrase ps =
     (if length ps > 0
      then map (\<lambda>s. s / real (length ps)) (foldl addPhrase (replicate (length (hd ps)) 0) ps)
      else [])"

text \<open>\<open>ps[Math.floor(ps.length / 2)] || []\<close>\<close>

definition midPhrase :: "real list list \<Rightarrow> real list" where
  "midPhrase ps = (if length ps div 2 < length ps then ps ! (length ps div 2) else [])"

definition bestStep ::
  "real list list \<Rightarrow> real list list \<Rightarrow> real \<Rightarrow> real \<Rightarrow> real \<times> real \<times> real \<Rightarrow> nat \<times> nat
     \<Rightarrow> real \<times> real \<times> real" where
  "bestStep phrasesA phrasesB durationA durationB best ij =
     (case (best, ij) of
        ((bestScore, bestFrom, bestTo), (i, j)) \<Rightarrow>
          let endPhrasesA = drop (length phrasesA - 3) phrasesA;
              startPhrasesB = take 3 phrasesB;
              similarity = cosineSimilarity (endPhrasesA ! i) (startPhrasesB ! j)
          in if similarity > bestScore
             then (similarity,
                   real (length phrasesA - length endPhrasesA + i) / real (length phrasesA) * durationA,
                   real j / real (length phrasesB) * durationB)
             else (bestScore, bestFrom, bestTo))"

definition findBestTransition ::
  "real list list \<Rightarrow> real list list \<Rightarrow> real \<Rightarrow> real \<Rightarrow> BestTransition option" where
  "findBestTransition phrasesA phrasesB durationA durationB =
     (let endPhrasesA = drop (length phrasesA - 3) phrasesA;
          startPhrasesB = take 3 phrasesB;
          pairs = concat (map (\<lambda>i. map (\<lambda>j. (i, j)) [0 ..< length startPhrasesB])
                               [0 ..< length endPhrasesA])
      in case foldl (bestStep phrasesA phrasesB durationA durationB) (0, 0, 0) pairs of
           (bestScore, bestFrom, bestTo) \<Rightarrow>
             if bestScore > 5 / 10
             then Some \<lparr>fromPosition = bestFrom, toPosition = bestTo, bt_score = bestScore\<rparr>
             else None)"

definition findSegments :: "real list list \<Rightarrow> real list list \<Rightarrow> real \<Rightarrow> SimilarSegment list" where
  "findSegments sourcePhrases trackPhrases trackDuration =
     take 5 (concat (map (\<lambda>i.
       let similarity = cosineSimilarity (midPhrase sourcePhrases) (trackPhrases ! i)
       in if similarity > 6 / 10
          then [\<lparr>seg_position = real i / real (length trackPhrases) * trackDuration,
                 seg_score = similarity\<rparr>]
          else [])
       [0 ..< min 5 (length trackPhrases)]))"

definition orUnknown :: "string option \<Rightarrow> string" where
  "orUnknown s = (case s of None \<Rightarrow> ''Unknown'' | Some t \<Rightarrow> if t = [] then ''Unknown'' else t)"

text \<open>
  The individual scores of a library track against the source track, and their
  weighted sum (\<open>// Calculate individual scores\<close> to \<open>const overall\<close>).
\<close>

definition trackScores ::
  "TrackSummary \<Rightarrow> real list list \<Rightarrow> TrackSummary \<Rightarrow> real list list \<Rightarrow> RecScores" where
  "trackScores sourceSummary sourcePhrases trackSummary trackPhrases =
     (let h = harmonicScore (key sourceSummary) (key trackSummary);
          t = tempoScore (tempo_bpm sourceSummary) (tempo_bpm trackSummary);
          e = energyTransitionScore (energy sourceSummary) (energy trackSummary);
          avgSourcePhrase = avgPhrase sourcePhrases;
          avgTrackPhrase = avgPhrase trackPhrases;
          tx = (if length avgSourcePhrase > 0 \<and> length avgTrackPhrase > 0
                then cosineSimilarity avgSourcePhrase avgTrackPhrase
                else 5 / 10);
          ph = cosineSimilarity (midPhrase sourcePhrases) (midPhrase trackPhrases)
      in \<lparr>harmonic = h, tempo = t, r_energy = e, texture = tx, phrase = ph,
          overall = overallScore h t e tx ph\<rparr>)"

text \<open>One iteration of the loop of \<open>recommendTracks\<close> over the library.\<close>

definition recommendOne ::
  "Storage \<Rightarrow> string \<Rightarrow> TrackSummary \<Rightarrow> real list list \<Rightarrow> real \<Rightarrow> string list
     \<Rightarrow> TrackManifest \<Rightarrow> TrackRecommendation list" where
  "recommendOne st sourceTrackId sourceSummary sourcePhrases minScore' exclude manifest =
     (case summary manifest of
        None \<Rightarrow> []
      | Some trackSummary \<Rightarrow>
          if status manifest \<noteq> Ready \<or> track_id manifest = sourceTrackId
               \<or> track_id manifest \<in> set exclude
          then []
          else
            case loadFeatures st (track_id manifest) of
              Inl e \<Rightarrow> []
            | Inr trackFeatures \<Rightarrow>
                let sc = trackScores sourceSummary sourcePhrases trackSummary
                           (phraseVecs trackFeatures)
                in if overall sc \<ge> minScore'
                   then [\<lparr>track = \<lparr>t_id = track_id manifest,
                                   t_title = orUnknown (title manifest),
                                   t_artist = orUnknown (artist manifest),
                                   t_bpm = tempo_bpm trackSummary,
                                   t_key = key trackSummary,
                                   t_energy = energy trackSummary,
                                   t_duration = duration trackSummary,
                                   t_phrases = phrases trackSummary,
                                   t_waveform = (case waveform trackFeatures of
                                                   None \<Rightarrow> [] | Some w \<Rightarrow> w)\<rparr>,
                          rec_score = overall sc,
                          rec_scores = sc,
                          bestTransition =
                            findBestTransition sourcePhrases (phraseVecs trackFeatures)
                              (duration sourceSummary) (duration trackSummary),
                          similarSegments =
                            findSegments sourcePhrases (phraseVecs trackFeatures)
                              (duration trackSummary)\<rparr>]
                   else [])"

definition minScoreOf :: "RecOptions \<Rightarrow> real" where
  "minScoreOf options = (case minScore options of None \<Rightarrow> 4 / 10 | Some m \<Rightarrow> m)"

definition recommendTracks ::
  "Storage \<Rightarrow> string \<Rightarrow> RecOptions \<Rightarrow> error + TrackRecommendation list" where
  "recommendTracks st sourceTrackId options =
     (let limit' = (case limit options of None \<Rightarrow> 10 | Some l \<Rightarrow> l);
          minScore' = minScoreOf options;
          exclude = (case excludeTrackIds options of None \<Rightarrow> [] | Some x \<Rightarrow> x)
      in case loadFeatures st sourceTrackId of
           Inl e \<Rightarrow> Inl e
         | Inr sourceFeatures \<Rightarrow>
             (case manifestSummary st sourceTrackId of
                None \<Rightarrow> Inl (JsError ''Source track summary not available'')
              | Some sourceSummary \<Rightarrow>
                  Inr (slice0 limit' (sortDesc rec_score
                    (concat (map (\<lambda>(k, manifest).
                       recommendOne st sourceTrackId sourceSummary (phraseVecs sourceFeatures)
                         minScore' exclude manifest)
                     (manifests st)))))))"

section \<open>Feature extraction\<close>

text \<open>
  Inside the extractor a division by an empty window yields \<open>NaN\<close> and the maximum of
  an empty window \<open>-Infinity\<close>.  A number of the extractor is therefore a
  \<^typ>\<open>real option\<close>, with \<open>None\<close> for a value that is not finite.  Every operation
  used here keeps a non-finite value non-finite, and \<open>JSON.stringify\<close> writes all of
  them as \<open>null\<close>.
\<close>

type_synonym jsnum = "real option"

definition jsAdd :: "jsnum \<Rightarrow> jsnum \<Rightarrow> jsnum" where
  "jsAdd x y = (case (x, y) of (Some a, Some b) \<Rightarrow> Some (a + b) | _ \<Rightarrow> None)"

definition jsSum :: "jsnum list \<Rightarrow> jsnum" where
  "jsSum xs = foldl jsAdd (Some 0) xs"

definition jsDivLen :: "jsnum \<Rightarrow> nat \<Rightarrow> jsnum" where
  "jsDivLen x n = (case x of Some a \<Rightarrow> if n = 0 then None else Some (a / real n) | None \<Rightarrow> None)"

definition jsSqrt :: "jsnum \<Rightarrow> jsnum" where
  "jsSqrt x = (case x of Some a \<Rightarrow> if a < 0 then None else Some (sqrt a) | None \<Rightarrow> None)"

text \<open>\<open>Math.max(...xs)\<close>: \<open>-Infinity\<close> for no argument, \<open>NaN\<close> when an argument is \<open>NaN\<close>.\<close>

definition jsMax :: "jsnum list \<Rightarrow> jsnum" where
  "jsMax xs =
     (if xs = [] \<or> None \<in> set xs then None else Some (Max (set (map the xs))))"

text \<open>The value a reader of the JSON file computes with: \<open>null\<close> counts as 0.\<close>

definition stored :: "jsnum \<Rightarrow> real" where
  "stored x = (case x of None \<Rightarrow> 0 | Some a \<Rightarrow> a)"

subsection \<open>Bar and phrase vectors (analysis.ts)\<close>

definition barVector :: "jsnum list \<Rightarrow> jsnum list" where
  "barVector barSamples =
     (let n = length barSamples;
          rms = jsSqrt (jsDivLen (jsSum (map (map_option (\<lambda>v. v * v)) barSamples)) n);
          peak = jsMax barSamples;
          mean = jsDivLen (jsSum barSamples) n;
          variance =
            jsDivLen (jsSum (map (\<lambda>v. case (v, mean) of
                                          (Some a, Some m) \<Rightarrow> Some ((a - m)\<^sup>2)
                                        | _ \<Rightarrow> None) barSamples)) n
      in take 128 ([rms, peak, mean, variance]
                   @ map (map_option (\<lambda>v. v * (5 / 10) + 5 / 10)) (take 124 barSamples)))"

definition generateBarVectors :: "jsnum list \<Rightarrow> nat \<Rightarrow> jsnum list list" where
  "generateBarVectors wave barCount =
     (let barsPerSample = length wave div barCount
      in map (\<lambda>i.
           let start = i * barsPerSample;
               end' = min (start + barsPerSample) (length wave)
           in barVector (take (end' - start) (drop start wave)))
         [0 ..< barCount])"

text \<open>
  \<open>meanVec[idx] += val\<close> for every entry of a bar vector: an index beyond the end of
  \<open>meanVec\<close> adds to \<open>undefined\<close>, which stores \<open>NaN\<close> and lengthens the array.
\<close>

definition addBar :: "jsnum list \<Rightarrow> jsnum list \<Rightarrow> jsnum list" where
  "addBar meanVec bar =
     map (\<lambda>idx.
        if idx < length bar
        then (if idx < length meanVec then jsAdd (meanVec ! idx) (bar ! idx) else None)
        else meanVec ! idx)
       [0 ..< max (length meanVec) (length bar)]"

text \<open>
  One phrase vector.  \<open>new Array(256 - pooled.length - 2)\<close> throws a \<open>RangeError\<close> for a
  negative length.
\<close>

definition phraseVector :: "jsnum list list \<Rightarrow> error + jsnum list" where
  "phraseVector phraseBars =
     (let meanVec = foldl addBar (replicate 128 (Some 0)) phraseBars;
          pooled = map (\<lambda>val. jsDivLen val (length phraseBars)) meanVec;
          energy' = jsDivLen (jsSum (take 10 pooled)) 10;
          texture' = jsDivLen (jsSum (map (map_option (\<lambda>v. \<bar>v - 5 / 10\<bar>))
                                        (take 10 (drop 10 pooled)))) 10
      in if length pooled + 2 > 256 then Inl (JsError ''Invalid array length'')
         else Inr (take 256 (pooled @ [energy', texture']
                             @ replicate (256 - length pooled - 2) (Some 0))))"

fun collect :: "(error + 'a) list \<Rightarrow> error + 'a list" where
  "collect [] = Inr []"
| "collect (x # xs) =
     (case x of
        Inl e \<Rightarrow> Inl e
      | Inr v \<Rightarrow> (case collect xs of Inl e \<Rightarrow> Inl e | Inr vs \<Rightarrow> Inr (v # vs)))"

definition generatePhraseVectors :: "jsnum list list \<Rightarrow> nat \<Rightarrow> error + jsnum list list" where
  "generatePhraseVectors barVecs' phraseCount =
     (let barsPerPhrase = length barVecs' div phraseCount
      in collect (map (\<lambda>i.
           let start = i * barsPerPhrase;
               end' = min (start + barsPerPhrase) (length barVecs')
           in phraseVector (take (end' - start) (drop start barVecs')))
         [0 ..< phraseCount]))"

text \<open>
  \<open>saveFeatures\<close>: both vector sets are computed before the first file is written, so
  an exception leaves the storage as it was.
\<close>

definition saveFeatures :: "Storage \<Rightarrow> string \<Rightarrow> TrackSummary \<Rightarrow> jsnum list \<Rightarrow> error + Storage" where
  "saveFeatures st tid s wave =
     (let barVecs' = generateBarVectors wave (bars s)
      in case generatePhraseVectors barVecs' (phrases s) of
           Inl e \<Rightarrow> Inl e
         | Inr phraseVecs' \<Rightarrow>
             Inr (st\<lparr>features := (features st)(tid \<mapsto>
                    \<lparr>barVecs = map (map stored) barVecs',
                     phraseVecs = map (map stored) phraseVecs',
                     fsummary = s,
                     waveform = Some (map stored wave)\<rparr>)\<rparr>))"

subsection \<open>Audio analysis\<close>

text \<open>
  What the external tools report for one audio file: whether \<open>fluent-ffmpeg\<close> could be
  loaded, the answer of \<open>ffprobe\<close>, the first BPM found on the standard error stream of
  the \<open>astats\<close> run (if any), and the mono 16-bit WAV file of the conversion.
\<close>

record AudioAnalysis =
  a_duration :: real
  sampleRate :: real
  channels :: nat
  bitrate :: real
  format :: string

record AudioEnv =
  ffmpegAvailable :: bool
  ffprobe :: "error + AudioAnalysis"
  stderrBPM :: "real option"
  wavFile :: "error + 8 word list"

text \<open>
  The results of the calls of \<open>Math.random()\<close> during one analysis, each in \<open>[0, 1)\<close>:
  one for the tempo, one for the key, and one per sample of the mock waveform.
\<close>

record Draws =
  bpmDraw :: real
  keyDraw :: real
  waveDraws :: "real list"

record AudioFeatures =
  af_tempo_bpm :: real
  af_key :: string
  af_energy :: jsnum
  af_duration :: real
  af_bars :: nat
  af_phrases :: nat
  af_waveform :: "jsnum list"

definition getAudioMetadata :: "AudioEnv \<Rightarrow> error + AudioAnalysis" where
  "getAudioMetadata env =
     (if \<not> ffmpegAvailable env
      then Inr \<lparr>a_duration = 180, sampleRate = 44100, channels = 2, bitrate = 320000,
                format = ''mp3''\<rparr>
      else ffprobe env)"

text \<open>\<open>readInt16LE\<close> of the bytes after the 44-byte header, divided by 32768.\<close>

fun pcmSamples :: "8 word list \<Rightarrow> real list" where
  "pcmSamples (lo # hi # rest) =
     real_of_int (sint (word_cat hi lo :: 16 word)) / 32768 # pcmSamples rest"
| "pcmSamples _ = []"

definition extractSamplesFromWav :: "8 word list \<Rightarrow> real list" where
  "extractSamplesFromWav buffer = pcmSamples (drop 44 buffer)"

definition downsampleToBars :: "real list \<Rightarrow> nat \<Rightarrow> jsnum list" where
  "downsampleToBars samples n =
     (let samplesPerBar = length samples div n
      in map (\<lambda>i.
           let start = i * samplesPerBar;
               end' = start + samplesPerBar;
               barSamples = take (end' - start) (drop start samples);
               rms = jsSqrt (jsDivLen (Some (\<Sum>sample \<leftarrow> barSamples. sample * sample))
                                       (length barSamples))
           in map_option (\<lambda>r. min 1 (r * 2)) rms)
         [0 ..< n])"

definition generateWaveform :: "AudioEnv \<Rightarrow> Draws \<Rightarrow> nat \<Rightarrow> error + jsnum list" where
  "generateWaveform env draws n =
     (if \<not> ffmpegAvailable env
      then Inr (map (\<lambda>r. Some (2 / 10 + r * (6 / 10))) (take n (waveDraws draws)))
      else case wavFile env of
             Inl e \<Rightarrow> Inl e
           | Inr buffer \<Rightarrow> Inr (downsampleToBars (extractSamplesFromWav buffer) n))"

definition estimateBPM :: "AudioEnv \<Rightarrow> Draws \<Rightarrow> real" where
  "estimateBPM env draws =
     (if \<not> ffmpegAvailable env then 120 + bpmDraw draws * 20
      else case stderrBPM env of
             Some b \<Rightarrow> b
           | None \<Rightarrow> 120 + bpmDraw draws * 20)"

text \<open>\<open>camelotKeys[Math.floor(Math.random() * camelotKeys.length)]\<close>\<close>

definition estimateKey :: "Draws \<Rightarrow> string" where
  "estimateKey draws =
     (let i = nat \<lfloor>keyDraw draws * real (length camelotKeys)\<rfloor>
      in if i < length camelotKeys then camelotKeys ! i else [])"

definition calculateEnergy :: "real \<Rightarrow> real \<Rightarrow> jsnum list \<Rightarrow> jsnum" where
  "calculateEnergy tempo' dur wave =
     (let tempoNorm = (tempo' - 100) / 20;
          avgRMS = jsDivLen (jsSum wave) (length wave);
          peaks = length (filter (\<lambda>val. case val of Some v \<Rightarrow> v > 7 / 10 | None \<Rightarrow> False) wave);
          density = jsDivLen (Some (real peaks)) (length wave)
      in case (density, avgRMS) of
           (Some d, Some a) \<Rightarrow>
             Some (max 1 (min 10 (5 / 10 + 5 / 10 * tempoNorm + 3 / 10 * d + 2 / 10 * a)))
         | _ \<Rightarrow> None)"

definition mathRound :: "real \<Rightarrow> real" where
  "mathRound x = real_of_int \<lfloor>x + 1 / 2\<rfloor>"

definition analyzeAudioFile :: "AudioEnv \<Rightarrow> Draws \<Rightarrow> error + AudioFeatures" where
  "analyzeAudioFile env draws =
     (case getAudioMetadata env of
        Inl e \<Rightarrow> Inl e
      | Inr metadata \<Rightarrow>
          let tempo_bpm' = estimateBPM env draws;
              key' = estimateKey draws
          in case generateWaveform env draws 80 of
               Inl e \<Rightarrow> Inl e
             | Inr wave \<Rightarrow>
                 let energy' = calculateEnergy tempo_bpm' (a_duration metadata) wave;
                     beats = a_duration metadata / 60 * tempo_bpm';
                     bars' = \<lfloor>beats / 4\<rfloor>;
                     phrases' = \<lfloor>real_of_int bars' / 8\<rfloor>
                 in Inr \<lparr>af_tempo_bpm = mathRound tempo_bpm',
                         af_key = key',
                         af_energy = map_option (\<lambda>e. mathRound (e * 10) / 10) energy',
                         af_duration = mathRound (a_duration metadata),
                         af_bars = nat (max 1 bars'),
                         af_phrases = nat (max 1 phrases'),
                         af_waveform = wave\<rparr>)"

text \<open>
  \<open>analyzeTrack\<close>: the summary of the analysis, and the storage with the features
  saved.  The summary is read back from JSON by every later use, so that a non-finite
  energy is kept as the number a reader computes with.
\<close>

definition analyzeTrack ::
  "Storage \<Rightarrow> string \<Rightarrow> AudioEnv \<Rightarrow> Draws \<Rightarrow> (error + TrackSummary) \<times> Storage" where
  "analyzeTrack st tid env draws =
     (case analyzeAudioFile env draws of
        Inl e \<Rightarrow> (Inl e, st)
      | Inr fs \<Rightarrow>
          let s = \<lparr>tempo_bpm = af_tempo_bpm fs, key = af_key fs, energy = stored (af_energy fs),
                   duration = af_duration fs, phrases = af_phrases fs, bars = af_bars fs\<rparr>
          in case saveFeatures st tid s (af_waveform fs) of
               Inl e \<Rightarrow> (Inl e, st)
             | Inr st' \<Rightarrow> (Inr s, st'))"

section \<open>SHA-256\<close>

text \<open>
  \<open>createHash("sha256")\<close> of Node's \<open>crypto\<close> module, after FIPS 180-4, on bytes as
  natural numbers below 256 and 32-bit words as natural numbers below \<open>2\<^sup>3\<^sup>2\<close>;
  \<open>digest("hex")\<close> is \<open>sha256hex\<close>.
\<close>

text \<open>Addition modulo \<open>2\<^sup>3\<^sup>2\<close> of two words below \<open>2\<^sup>3\<^sup>2\<close>, and rotation to the right.\<close>

definition wrap32 :: "nat \<Rightarrow> nat" where
  "wrap32 s = (if s < 4294967296 then s else s - 4294967296)"
definition add32 :: "nat \<Rightarrow> nat \<Rightarrow> nat" where
  "add32 x y = wrap32 (x + y)"




definition step :: "nat \<Rightarrow> nat \<Rightarrow> nat list \<Rightarrow> nat list" where
  "step t1 t2 st = (case st of [a, b, c, d, e, f, g, h] \<Rightarrow> [add32 t1 t2, a, b, c, add32 d t1, e, f, g] | _ \<Rightarrow> st)"















section \<open>Track identifiers and upload validation (storage.ts)\<close>


















section \<open>Job queue and analysis worker\<close>

record AnalyzeData =
  d_track_id :: string
  d_path :: string

record QueueJob =
  job_type :: string
  job_data :: AnalyzeData
  job_id :: string
  createdAt :: nat
  retries :: nat

datatype handler = AnalyzeHandler

record SimpleQueue =
  jobs :: "QueueJob list"
  processing :: bool
  handlers :: "string \<rightharpoonup> handler"

text \<open>
  The process: the storage, the queue, the pending \<open>setTimeout\<close> callbacks (due time in
  milliseconds and the job to push), the clock, and the number of analyses run so far.
  \<open>analysis n\<close> is what the external tools and \<open>Math.random()\<close> deliver to the
  \<open>n\<close>-th analysis.  A handler runs to its end before the next timer fires.
\<close>

record World =
  storage :: Storage
  queue :: SimpleQueue
  timers :: "(nat \<times> QueueJob) list"
  clock :: nat
  runs :: nat
  analysis :: "nat \<Rightarrow> AudioEnv \<times> Draws"

definition errorMessage :: "error \<Rightarrow> string" where
  "errorMessage e =
     (case e of
        JsError m \<Rightarrow> m
      | NotFoundError m \<Rightarrow> m
      | DimensionMismatchError \<Rightarrow> ''DimensionMismatchError''
      | DuplicateTrackError \<Rightarrow> ''DuplicateTrackError'')"

text \<open>\<open>error.message || "analysis_failed"\<close>\<close>

definition failureReason :: "error \<Rightarrow> string" where
  "failureReason e = (if errorMessage e = [] then ''analysis_failed'' else errorMessage e)"

text \<open>The handler registered for \<open>"analyze"\<close> (worker.ts).\<close>

definition analyzeHandler :: "World \<Rightarrow> AnalyzeData \<Rightarrow> (error + unit) \<times> World" where
  "analyzeHandler w data =
     (case getManifest (storage w) (d_track_id data) of
        None \<Rightarrow> (Inl (JsError (''Manifest not found for track '' @ d_track_id data)), w)
      | Some manifest \<Rightarrow>
          if status manifest = Ready \<and> summary manifest \<noteq> None then (Inr (), w)
          else
            let manifest1 = manifest\<lparr>status := Processing, updated_at := clock w\<rparr>;
                st1 = saveManifest (storage w) manifest1;
                (env, draws) = analysis w (runs w);
                (result, st2) = analyzeTrack st1 (d_track_id data) env draws
            in case result of
                 Inr s \<Rightarrow>
                   let manifest2 = manifest1\<lparr>status := Ready, summary := Some s,
                                              updated_at := clock w\<rparr>
                   in (Inr (), w\<lparr>storage := saveManifest st2 manifest2, runs := runs w + 1\<rparr>)
               | Inl e \<Rightarrow>
                   let manifest2 = manifest1\<lparr>status := Error,
                                              error_reason := Some (failureReason e),
                                              updated_at := clock w\<rparr>
                   in (Inl e, w\<lparr>storage := saveManifest st2 manifest2, runs := runs w + 1\<rparr>))"

definition runHandler :: "handler \<Rightarrow> World \<Rightarrow> AnalyzeData \<Rightarrow> (error + unit) \<times> World" where
  "runHandler h w data = (case h of AnalyzeHandler \<Rightarrow> analyzeHandler w data)"

text \<open>
  One turn of the \<open>while\<close> loop of \<open>process\<close>, for the job just shifted off the queue:
  a job without handler is dropped; a failed job with fewer than 3 retries is counted
  and pushed again by a timer after \<open>2\<^sup>r\<^sup>e\<^sup>t\<^sup>r\<^sup>i\<^sup>e\<^sup>s * 1000\<close> ms.
\<close>

definition processJob :: "QueueJob \<Rightarrow> World \<Rightarrow> World" where
  "processJob job w =
     (case handlers (queue w) (job_type job) of
        None \<Rightarrow> w
      | Some h \<Rightarrow>
          (case runHandler h w (job_data job) of
             (Inr u, w') \<Rightarrow> w'
           | (Inl e, w') \<Rightarrow>
               if retries job < 3
               then let job' = job\<lparr>retries := retries job + 1\<rparr>;
                        delay = 2 ^ retries job' * 1000
                    in w'\<lparr>timers := timers w' @ [(clock w' + delay, job')]\<rparr>
               else w'))"

fun drainJobs :: "QueueJob list \<Rightarrow> World \<Rightarrow> World" where
  "drainJobs [] w = w"
| "drainJobs (job # rest) w = drainJobs rest (processJob job w)"

definition process :: "World \<Rightarrow> World" where
  "process w =
     (if processing (queue w) \<or> jobs (queue w) = [] then w
      else drainJobs (jobs (queue w)) (w\<lparr>queue := (queue w)\<lparr>jobs := []\<rparr>\<rparr>))"

definition on :: "World \<Rightarrow> string \<Rightarrow> handler \<Rightarrow> World" where
  "on w type h = w\<lparr>queue := (queue w)\<lparr>handlers := (handlers (queue w))(type \<mapsto> h)\<rparr>\<rparr>"

text \<open>
  \<open>publish\<close>: the job id is \<open>Date.now()\<close> and a random suffix, given here by the caller.
\<close>

definition publish :: "World \<Rightarrow> string \<Rightarrow> AnalyzeData \<Rightarrow> string \<Rightarrow> World" where
  "publish w type data jid =
     (let job = \<lparr>job_type = type, job_data = data, job_id = jid, createdAt = clock w, retries = 0\<rparr>
      in process (w\<lparr>queue := (queue w)\<lparr>jobs := jobs (queue w) @ [job]\<rparr>\<rparr>))"

text \<open>The next timer to fire: the earliest due time, the first set among equals.\<close>

fun nextTimer :: "(nat \<times> QueueJob) list \<Rightarrow> (nat \<times> QueueJob) option" where
  "nextTimer [] = None"
| "nextTimer (t # ts) =
     (case nextTimer ts of
        None \<Rightarrow> Some t
      | Some u \<Rightarrow> if fst u < fst t then Some u else Some t)"

text \<open>The callback of \<open>setTimeout\<close>: push the job and call \<open>process\<close>.\<close>

definition fireTimer :: "nat \<times> QueueJob \<Rightarrow> World \<Rightarrow> World" where
  "fireTimer t w =
     process (w\<lparr>timers := remove1 t (timers w),
                clock := max (clock w) (fst t),
                queue := (queue w)\<lparr>jobs := jobs (queue w) @ [snd t]\<rparr>\<rparr>)"

text \<open>The weight of a job for termination: the runs it can still cause.\<close>

definition jobWeight :: "QueueJob \<Rightarrow> nat" where
  "jobWeight job = 1 + (3 - retries job)"

definition timersWeight :: "(nat \<times> QueueJob) list \<Rightarrow> nat" where
  "timersWeight ts = (\<Sum>t \<leftarrow> ts. jobWeight (snd t)) + length ts"



section \<open>Upload route\<close>







text \<open>The outcome of the \<open>n\<close>-th analysis, and the sum of the delays of \<open>k\<close> retries
  after the \<open>r\<close>-th.\<close>

definition analysisResult :: "World \<Rightarrow> nat \<Rightarrow> error + AudioFeatures" where
  "analysisResult w n = analyzeAudioFile (fst (analysis w n)) (snd (analysis w n))"

fun backoffTotal :: "nat \<Rightarrow> nat \<Rightarrow> nat" where
  "backoffTotal r 0 = 0"
| "backoffTotal r (Suc k) = 2 ^ (r + 1) * 1000 + backoffTotal (r + 1) k"

text \<open>A world about to run its single queued job for a track that is not ready.\<close>

definition readyToRun :: "World \<Rightarrow> QueueJob \<Rightarrow> string \<Rightarrow> bool" where
  "readyToRun w job tid \<longleftrightarrow>
     jobs (queue w) = [job] \<and> \<not> processing (queue w) \<and> timers w = []
     \<and> handlers (queue w) ''analyze'' = Some AnalyzeHandler
     \<and> job_type job = ''analyze'' \<and> d_track_id (job_data job) = tid
     \<and> (\<exists>m. getManifest (storage w) tid = Some m \<and> track_id m = tid \<and> status m \<noteq> Ready)"

section \<open>Running the timers\<close>

text \<open>
  \<open>runTimers\<close> lets the pending timers fire, earliest first, until none is left.  It
  terminates: firing a timer moves its job to the queue, and a processed job is gone
  or waits again with one retry more, at most three times.
\<close>


definition worldWeight :: "World \<Rightarrow> nat" where
  "worldWeight w = timersWeight (timers w) + (\<Sum>job \<leftarrow> jobs (queue w). jobWeight job)"

lemma analyzeHandler_frame:
  "queue (snd (analyzeHandler w d)) = queue w"
  "timers (snd (analyzeHandler w d)) = timers w"
  "clock (snd (analyzeHandler w d)) = clock w"
  "analysis (snd (analyzeHandler w d)) = analysis w"
  by (auto simp: analyzeHandler_def Let_def split: option.splits prod.splits sum.splits)

lemma processJob_queue: "queue (processJob job w) = queue w"
  using analyzeHandler_frame(1) [of w "job_data job"]
  by (auto simp: processJob_def runHandler_def Let_def split: option.splits prod.splits sum.splits handler.splits)

lemma timersWeight_append:
  "timersWeight (ts @ [t]) = timersWeight ts + jobWeight (snd t) + 1"
  by (simp add: timersWeight_def)

lemma processJob_timersWeight:
  "timersWeight (timers (processJob job w)) \<le> timersWeight (timers w) + jobWeight job"
  using analyzeHandler_frame(2) [of w "job_data job"]
  by (auto simp: processJob_def runHandler_def Let_def timersWeight_append jobWeight_def
      split: option.splits prod.splits sum.splits handler.splits)

lemma drainJobs_queue: "queue (drainJobs js w) = queue w"
  by (induction js arbitrary: w) (simp_all add: processJob_queue)

lemma drainJobs_timersWeight:
  "timersWeight (timers (drainJobs js w)) \<le> timersWeight (timers w) + (\<Sum>job \<leftarrow> js. jobWeight job)"
proof (induction js arbitrary: w)
  case Nil
  then show ?case by simp
next
  case (Cons job js)
  have "timersWeight (timers (drainJobs js (processJob job w)))
        \<le> timersWeight (timers (processJob job w)) + (\<Sum>job \<leftarrow> js. jobWeight job)"
    by (rule Cons.IH)
  also have "\<dots> \<le> timersWeight (timers w) + jobWeight job + (\<Sum>job \<leftarrow> js. jobWeight job)"
    using processJob_timersWeight [of job w] by simp
  finally show ?case by simp
qed

lemma process_worldWeight: "worldWeight (process w) \<le> worldWeight w"
proof (cases "processing (queue w) \<or> jobs (queue w) = []")
  case True
  then show ?thesis by (simp add: process_def)
next
  case False
  let ?w0 = "w\<lparr>queue := (queue w)\<lparr>jobs := []\<rparr>\<rparr>"
  have "jobs (queue (drainJobs (jobs (queue w)) ?w0)) = []"
    by (simp add: drainJobs_queue)
  moreover have "timersWeight (timers (drainJobs (jobs (queue w)) ?w0))
      \<le> timersWeight (timers w) + (\<Sum>job \<leftarrow> jobs (queue w). jobWeight job)"
    using drainJobs_timersWeight [of "jobs (queue w)" ?w0] by simp
  ultimately show ?thesis using False by (simp add: process_def worldWeight_def)
qed

lemma timersWeight_remove1:
  "t \<in> set ts \<Longrightarrow> timersWeight (remove1 t ts) + jobWeight (snd t) + 1 = timersWeight ts"
  by (induction ts) (auto simp: timersWeight_def)

lemma nextTimer_in: "nextTimer ts = Some t \<Longrightarrow> t \<in> set ts"
  by (induction ts arbitrary: t) (auto split: option.splits if_splits)

lemma fireTimer_worldWeight:
  assumes "t \<in> set (timers w)"
  shows "worldWeight (fireTimer t w) < worldWeight w"
proof -
  let ?w1 = "w\<lparr>timers := remove1 t (timers w), clock := max (clock w) (fst t),
                queue := (queue w)\<lparr>jobs := jobs (queue w) @ [snd t]\<rparr>\<rparr>"
  have "worldWeight (fireTimer t w) \<le> worldWeight ?w1"
    unfolding fireTimer_def by (rule process_worldWeight)
  also have "worldWeight ?w1 + 1 = worldWeight w"
    using timersWeight_remove1 [OF assms] by (simp add: worldWeight_def)
  finally show ?thesis by simp
qed

function runTimers :: "World \<Rightarrow> World" where
  "runTimers w =
     (case nextTimer (timers w) of
        None \<Rightarrow> w
      | Some t \<Rightarrow> runTimers (fireTimer t w))"
  by pat_completeness auto

termination runTimers
  by (relation "measure worldWeight") (auto dest!: nextTimer_in intro: fireTimer_worldWeight)


section \<open>Example libraries\<close>

text \<open>Small libraries on which the general theorems are instantiated.\<close>

definition readyManifest :: "string \<Rightarrow> TrackSummary \<Rightarrow> TrackManifest" where
  "readyManifest tid s =
     \<lparr>track_id = tid, status = Ready, artist = None, title = None, file_size = 0,
      file_path = ''storage/tracks/'' @ tid @ ''/audio.mp3'', content_digest = [],
      summary = Some s, error_reason = None, created_at = 0, updated_at = 0\<rparr>"

definition trackFeatures :: "TrackSummary \<Rightarrow> real list list \<Rightarrow> real list list \<Rightarrow> Features" where
  "trackFeatures s bs ps = \<lparr>barVecs = bs, phraseVecs = ps, fsummary = s, waveform = None\<rparr>"

definition library :: "(string \<times> TrackSummary \<times> real list list \<times> real list list) list \<Rightarrow> Storage" where
  "library ts =
     \<lparr>manifests = map (\<lambda>(tid, s, bs, ps). (tid, readyManifest tid s)) ts,
      features = map_of (map (\<lambda>(tid, s, bs, ps). (tid, trackFeatures s bs ps)) ts),
      files = Map.empty\<rparr>"

text \<open>The two tracks of the example of the specification: 128 BPM/8A/7.0 and 129 BPM/8B/7.2.\<close>

definition summaryA :: TrackSummary where
  "summaryA = \<lparr>tempo_bpm = 128, key = ''8A'', energy = 7, duration = 180, phrases = 1, bars = 8\<rparr>"

definition summaryB :: TrackSummary where
  "summaryB = \<lparr>tempo_bpm = 129, key = ''8B'', energy = 72 / 10, duration = 200, phrases = 4, bars = 32\<rparr>"

definition libTwoTracks :: Storage where
  "libTwoTracks =
     library [(''a'', summaryA, [[1]], [[1]]),
              (''b'', summaryB, [[1], [1], [1], [1]], [[1], [1], [1], [1]])]"

definition defaultOptions :: RecOptions where
  "defaultOptions = \<lparr>limit = None, minScore = None, excludeTrackIds = None\<rparr>"

text \<open>Two tracks far apart in key, tempo and energy, with opposed phrase vectors.\<close>

definition summaryLow :: TrackSummary where
  "summaryLow = \<lparr>tempo_bpm = 100, key = ''1A'', energy = 1, duration = 180, phrases = 1, bars = 8\<rparr>"

definition summaryHigh :: TrackSummary where
  "summaryHigh = \<lparr>tempo_bpm = 140, key = ''5B'', energy = 10, duration = 180, phrases = 1, bars = 8\<rparr>"

definition libOpposed :: Storage where
  "libOpposed =
     library [(''a'', summaryLow, [[1]], [[1]]), (''n'', summaryHigh, [[- 1]], [[- 1]])]"

text \<open>A single track whose only bar vector is stored as four zeros.\<close>

definition libSilent :: Storage where
  "libSilent = library [(''z'', summaryA, [[0, 0, 0, 0]], [[1]])]"

text \<open>
  An audio file as the tools see it: three minutes, no BPM tag on the error stream, a
  WAV conversion of the header and two samples.
\<close>

definition audioEnv :: AudioEnv where
  "audioEnv =
     \<lparr>ffmpegAvailable = True,
      ffprobe = Inr \<lparr>a_duration = 180, sampleRate = 44100, channels = 2, bitrate = 320000,
                     format = ''mp3''\<rparr>,
      stderrBPM = None,
      wavFile = Inr (replicate 44 0 @ [0, 64, 0, 192])\<rparr>"

text \<open>
  A worker process before the upload of its first job: one manifest, queued, no
  features; the handler registered; the queue idle.  The analysis outcomes are a
  parameter: \<open>failsFirst k\<close> lets \<open>ffprobe\<close> fail for the first \<open>k\<close> analyses.
\<close>

definition queuedManifest :: "string \<Rightarrow> status \<Rightarrow> TrackManifest" where
  "queuedManifest tid s =
     \<lparr>track_id = tid, status = s, artist = None, title = None, file_size = 48,
      file_path = ''storage/tracks/'' @ tid @ ''/audio.mp3'', content_digest = [],
      summary = None, error_reason = None, created_at = 0, updated_at = 0\<rparr>"

definition workerWorld :: "status \<Rightarrow> (nat \<Rightarrow> AudioEnv \<times> Draws) \<Rightarrow> World" where
  "workerWorld s f =
     \<lparr>storage = \<lparr>manifests = [(''t1'', queuedManifest ''t1'' s)], features = Map.empty,
                  files = Map.empty\<rparr>,
      queue = \<lparr>jobs = [], processing = False, handlers = [''analyze'' \<mapsto> AnalyzeHandler]\<rparr>,
      timers = [], clock = 0, runs = 0, analysis = f\<rparr>"

definition failingEnv :: AudioEnv where
  "failingEnv = audioEnv\<lparr>ffprobe := Inl (JsError ''ffprobe failed: Invalid data found'')\<rparr>"

definition noDraws :: Draws where
  "noDraws = \<lparr>bpmDraw = 0, keyDraw = 0, waveDraws = []\<rparr>"

definition failsFirst :: "nat \<Rightarrow> nat \<Rightarrow> AudioEnv \<times> Draws" where
  "failsFirst k n = (if n < k then (failingEnv, noDraws) else (audioEnv, noDraws))"

definition t1Job :: AnalyzeData where
  "t1Job = \<lparr>d_track_id = ''t1'', d_path = ''storage/tracks/t1/audio.mp3''\<rparr>"







section \<open>Properties\<close>

subsection \<open>Key scores\<close>




lemma harmonicScore_identical: "harmonicScore k k = 1"
  by (simp add: harmonicScore_def keyScore_def)

text \<open>
  C3.  The table of the claim gives 0.95 for the relative major/minor key (same number,
  other letter) and 0.85 for the neighbouring number with the same letter.  The code
  takes its base score from \<open>keyScore\<close>, which only ever is 1, 0.5 or 0, so that both
  cases fall to the branch \<open>\<ge> 0.50\<close> and score 0.65; the branches for 0.95 and 0.85
  are never taken.  Evaluated at \<open>8A/8B\<close>, \<open>8A/9A\<close> and across the wrap \<open>12A/1A\<close>.
\<close>

theorem harmonicScore_relative_and_adjacent:
  "harmonicScore ''8A'' ''8B'' = 65 / 100 \<and>
   harmonicScore ''8A'' ''9A'' = 65 / 100 \<and>
   harmonicScore ''12A'' ''1A'' = 65 / 100"
  by (simp add: harmonicScore_def keyScore_def isKeyCompatible_def parseInt_def sliceLast_def
      isWhiteSpace_def digitValue_def)

subsection \<open>Cosine similarity\<close>


lemma cosineLoop_sums:
  "length a = length b \<Longrightarrow>
   cosineLoop a b (d, na, nb) = (d + dotProduct a b, na + dotProduct a a, nb + dotProduct b b)"
  by (induction a b arbitrary: d na nb rule: list_induct2) (simp_all add: dotProduct_def)

lemma dotProduct_self_nonneg: "0 \<le> dotProduct a a"
  by (induction a) (simp_all add: dotProduct_def)

lemma dotProduct_self_zero: "dotProduct a a = 0 \<longleftrightarrow> allZero a"
proof (induction a)
  case Nil
  then show ?case by (simp add: dotProduct_def allZero_def)
next
  case (Cons x xs)
  have "dotProduct (x # xs) (x # xs) = x * x + dotProduct xs xs"
    by (simp add: dotProduct_def)
  moreover have "0 \<le> x * x" by simp
  moreover note dotProduct_self_nonneg [of xs]
  ultimately have "dotProduct (x # xs) (x # xs) = 0 \<longleftrightarrow> x = 0 \<and> dotProduct xs xs = 0"
    by (metis add_nonneg_eq_0_iff mult_eq_0_iff)
  with Cons show ?case by (simp add: allZero_def)
qed

lemma cosineSimilarity_closed_form:
  "cosineSimilarity a b =
     (if length a \<noteq> length b then 0
      else if allZero a \<or> allZero b then 0
      else dotProduct a b / (norm2 a * norm2 b))"
  by (simp add: cosineSimilarity_def cosineLoop_sums dotProduct_self_zero norm2_def)

text \<open>
  C5 (amended).  \<open>cosineSimilarity\<close> returns 0 for vectors of unequal length (it
  raises no error), 0 when the lengths agree and either vector is all-zero, and
  otherwise the dot product divided by the product of the norms.
\<close>

theorem cosineSimilarity_amended:
  "cosineSimilarity a b =
     (if length a \<noteq> length b then 0
      else if allZero a \<or> allZero b then 0
      else dotProduct a b / (norm2 a * norm2 b))"
  by (rule cosineSimilarity_closed_form)

text \<open>
  C5, as stated, fails: for the lengths 1 and 2 the code returns the value 0, where the
  contract of the specification raises \<open>DimensionMismatchError\<close>.
\<close>

theorem cosineSimilarity_unequal_counterexample:
  "cosineSimilarity [1] [1, 2] = 0 \<and>
   cosineSimilarity_spec [1] [1, 2] \<noteq> Inr (cosineSimilarity [1] [1, 2])"
  by (simp add: cosineSimilarity_def cosineSimilarity_spec_def)





subsection \<open>Transition candidates\<close>


lemma set_slice0: "set (slice0 k xs) \<subseteq> set xs"
  by (auto simp: slice0_def dest: in_set_takeD)

lemma length_slice0: "0 \<le> k \<Longrightarrow> int (length (slice0 k xs)) \<le> k"
  by (simp add: slice0_def)

lemma slice0_all: "int (length xs) \<le> k \<Longrightarrow> slice0 k xs = xs"
  by (simp add: slice0_def)

lemma sorted_wrt_slice0: "sorted_wrt P xs \<Longrightarrow> sorted_wrt P (slice0 k xs)"
  by (simp add: slice0_def sorted_wrt_take)

lemma set_sortDesc: "set (sortDesc f xs) = set xs"
  by (simp add: sortDesc_def)

lemma in_slice0_sortDesc: "c \<in> set (slice0 k (sortDesc f xs)) \<Longrightarrow> c \<in> set xs"
  using set_slice0 [of k "sortDesc f xs"] by (auto simp: set_sortDesc)

lemma length_sortDesc: "length (sortDesc f xs) = length xs"
  by (simp add: sortDesc_def)

lemma sorted_sortDesc: "sorted_wrt (\<lambda>x y. f x \<ge> f y) (sortDesc f xs)"
proof -
  have "sorted (map (\<lambda>x. - f x) (sortDesc f xs))"
    by (simp add: sortDesc_def)
  then show ?thesis
    by (simp add: sorted_wrt_map)
qed

lemma candidateLoop_elem:
  assumes "c \<in> set (candidateLoop sA sB pA pB)"
  shows "\<exists>i j. startA pA \<le> i \<and> i < length pA \<and> j < endB pB \<and>
           c = candidateAt sA sB pA pB i j \<and> score c > 4 / 10"
proof -
  from assms obtain i j where "i \<in> set [startA pA ..< length pA]" "j \<in> set [0 ..< endB pB]"
    "c = candidateAt sA sB pA pB i j" "score c > 4 / 10"
    by (auto simp: candidateLoop_def Let_def split: if_splits)
  then show ?thesis by auto
qed


lemma candidateAt_score:
  "score (candidateAt sA sB pA pB i j) =
     totalScore (s_key (scores (candidateAt sA sB pA pB i j)))
       (s_tempo (scores (candidateAt sA sB pA pB i j)))
       (s_energy (scores (candidateAt sA sB pA pB i j)))
       (s_timing (scores (candidateAt sA sB pA pB i j)))
       (s_contour (scores (candidateAt sA sB pA pB i j)))"
  by (simp add: candidateAt_def Let_def)

lemma candidateAt_subscores:
  "s_key (scores (candidateAt sA sB pA pB i j)) = harmonicScore (key sA) (key sB)"
  "s_tempo (scores (candidateAt sA sB pA pB i j)) = tempoScore (tempo_bpm sA) (tempo_bpm sB)"
  "s_energy (scores (candidateAt sA sB pA pB i j)) = energyTransitionScore (energy sA) (energy sB)"
  "s_timing (scores (candidateAt sA sB pA pB i j)) =
     5 / 10 + 3 / 10 * (1 - real i / real (length pA)) + 2 / 10 * (real j / real (length pB))"
  "s_contour (scores (candidateAt sA sB pA pB i j)) = cosineSimilarity (pA ! i) (pB ! j)"
  by (simp_all add: candidateAt_def Let_def)

lemma generateCandidates_Inr:
  assumes "generateCandidates st a b k = Inr cs"
  obtains fA :: Features and fB :: Features and sA sB where
    "loadFeatures st a = Inr fA" "loadFeatures st b = Inr fB"
    "manifestSummary st a = Some sA" "manifestSummary st b = Some sB"
    "cs = slice0 k (sortDesc score (candidateLoop sA sB (phraseVecs fA) (phraseVecs fB)))"
  using assms
  by (auto simp: generateCandidates_def split: sum.splits option.splits)

text \<open>
  C7.  Every candidate returned by \<open>generateCandidates\<close> carries the weighted sum of its
  five sub-scores as its score, with the weights 0.30 (harmonic, the field \<open>key\<close>), 0.25
  (tempo), 0.20 (energy), 0.15 (timing) and 0.10 (contour); only candidates scoring at
  least 0.4 are returned (the code keeps those above 0.4); the list is sorted by
  descending score and, for a count \<open>k \<ge> 0\<close>, has at most \<open>k\<close> entries.
\<close>

theorem generateCandidates_scored_sorted_topk:
  assumes "generateCandidates st a b k = Inr cs" and "0 \<le> k"
  shows "(\<forall>c \<in> set cs.
            score c = 30 / 100 * s_key (scores c) + 25 / 100 * s_tempo (scores c)
                      + 20 / 100 * s_energy (scores c) + 15 / 100 * s_timing (scores c)
                      + 10 / 100 * s_contour (scores c)
            \<and> score c \<ge> 4 / 10)
         \<and> sorted_wrt (\<lambda>x y. score x \<ge> score y) cs
         \<and> int (length cs) \<le> k"
proof -
  from assms(1) obtain fA :: Features and fB :: Features and sA sB where
    cs: "cs = slice0 k (sortDesc score (candidateLoop sA sB (phraseVecs fA) (phraseVecs fB)))"
    by (rule generateCandidates_Inr)
  have "\<forall>c \<in> set cs.
            score c = 30 / 100 * s_key (scores c) + 25 / 100 * s_tempo (scores c)
                      + 20 / 100 * s_energy (scores c) + 15 / 100 * s_timing (scores c)
                      + 10 / 100 * s_contour (scores c)
            \<and> score c \<ge> 4 / 10"
  proof
    fix c assume "c \<in> set cs"
    then have "c \<in> set (candidateLoop sA sB (phraseVecs fA) (phraseVecs fB))"
      unfolding cs by (rule in_slice0_sortDesc)
    then obtain i j where c: "c = candidateAt sA sB (phraseVecs fA) (phraseVecs fB) i j"
      and gt: "score c > 4 / 10"
      using candidateLoop_elem by blast
    show "score c = 30 / 100 * s_key (scores c) + 25 / 100 * s_tempo (scores c)
                      + 20 / 100 * s_energy (scores c) + 15 / 100 * s_timing (scores c)
                      + 10 / 100 * s_contour (scores c)
            \<and> score c \<ge> 4 / 10"
      using gt candidateAt_score [of sA sB "phraseVecs fA" "phraseVecs fB" i j]
      by (simp add: c totalScore_def)
  qed
  moreover have "sorted_wrt (\<lambda>x y. score x \<ge> score y) cs"
    unfolding cs by (intro sorted_wrt_slice0 sorted_sortDesc)
  moreover have "int (length cs) \<le> k"
    unfolding cs using assms(2) by (rule length_slice0)
  ultimately show ?thesis by blast
qed


subsection \<open>Ranges of the combined scores\<close>

text \<open>The definitions unfolded when a model is evaluated on a concrete library.\<close>

lemmas ev = generateCandidates_def recommendTracks_def searchSimilar_def libTwoTracks_def libOpposed_def libSilent_def library_def readyManifest_def trackFeatures_def summaryA_def summaryB_def summaryLow_def summaryHigh_def loadFeatures_def manifestSummary_def getManifest_def candidateLoop_def candidateAt_def startA_def endB_def slice0_def sortDesc_def totalScore_def overallScore_def harmonicScore_def keyScore_def isKeyCompatible_def parseInt_def sliceLast_def isWhiteSpace_def digitValue_def tempoScore_def energyTransitionScore_def cosineSimilarity_def recommendOne_def trackScores_def minScoreOf_def defaultOptions_def avgPhrase_def addPhrase_def midPhrase_def findBestTransition_def bestStep_def findSegments_def orUnknown_def searchScan_def scanTrack_def refVector_def refIndex_def scopeVectors_def


















theorem generateCandidates_scored_sorted_topk_witness:
  "(0::int) \<le> 5
   \<and> generateCandidates libTwoTracks ''a'' ''b'' 5 =
       Inr [\<lparr>from_position = 0, to_position = 0, score = 341 / 400,
              scores = \<lparr>s_key = 65 / 100, s_energy = 1, s_timing = 8 / 10, s_contour = 1,
                         s_tempo = 95 / 100\<rparr>\<rparr>]
   \<and> (341::real) / 400 = 30 / 100 * (65 / 100) + 25 / 100 * (95 / 100) + 20 / 100 * 1
         + 15 / 100 * (8 / 10) + 10 / 100 * 1
   \<and> (341::real) / 400 \<ge> 4 / 10
   \<and> int (length [341 / 400 :: real]) \<le> 5"
proof -
  have g: "generateCandidates libTwoTracks ''a'' ''b'' 5 =
       Inr [\<lparr>from_position = 0, to_position = 0, score = 341 / 400,
              scores = \<lparr>s_key = 65 / 100, s_energy = 1, s_timing = 8 / 10, s_contour = 1,
                         s_tempo = 95 / 100\<rparr>\<rparr>]"
    by (simp add: ev Let_def)
  from generateCandidates_scored_sorted_topk [OF g] g show ?thesis by simp
qed

subsection \<open>Similarity search\<close>

lemma cosineSimilarity_self: "cosineSimilarity v v = (if allZero v then 0 else 1)"
proof (cases "allZero v")
  case True
  then show ?thesis by (simp add: cosineSimilarity_closed_form)
next
  case False
  then have "dotProduct v v \<noteq> 0" by (simp add: dotProduct_self_zero)
  with dotProduct_self_nonneg [of v] have pos: "0 < dotProduct v v" by linarith
  have "norm2 v * norm2 v = dotProduct v v"
    using pos by (simp add: norm2_def)
  with pos False show ?thesis by (simp add: cosineSimilarity_closed_form)
qed

lemma refIndex_lt: "refIndex position dur n = Some i \<Longrightarrow> i < n"
  by (auto simp: refIndex_def Let_def split: if_splits)

lemma scanTrack_self:
  assumes "features st (track_id m) = Some f" "status m = Ready" "summary m \<noteq> None"
    and "i < length (scopeVectors sc f)"
  shows "\<lparr>r_track_id = track_id m,
          r_position = real i / real (length (scopeVectors sc f)) * duration (fsummary f),
          r_score = cosineSimilarity v (scopeVectors sc f ! i)\<rparr>
         \<in> set (scanTrack st (Some v) sc m)"
  using assms by (auto simp: scanTrack_def loadFeatures_def Let_def image_iff)

text \<open>
  C10 (amended).  \<open>searchSimilar\<close> scans the query track like every other ready track.
  When the query track has features, its manifest is ready with a summary, and the
  position selects a reference vector (index \<open>i\<close>), the scanned results contain the
  query segment at its own position \<open>(i / n) * duration\<close>; its similarity is 1 when the
  reference vector is not all-zero and 0 when it is.  The entry is in the returned list
  whenever \<open>k\<close> is at least the number of scanned results.
\<close>

theorem searchSimilar_scans_query_track:
  assumes "features st tid = Some f"
    and "(kk, m) \<in> set (manifests st)" and "track_id m = tid"
    and "status m = Ready" and "summary m \<noteq> None"
    and "refIndex position (duration (fsummary f)) (length (scopeVectors sc f)) = Some i"
  shows "\<exists>rs. searchSimilar st tid position sc k = Inr rs
           \<and> \<lparr>r_track_id = tid,
               r_position = real i / real (length (scopeVectors sc f)) * duration (fsummary f),
               r_score = (if allZero (scopeVectors sc f ! i) then 0 else 1)\<rparr>
              \<in> set (searchScan st f position sc)
           \<and> (int (length (searchScan st f position sc)) \<le> k \<longrightarrow>
               \<lparr>r_track_id = tid,
                r_position = real i / real (length (scopeVectors sc f)) * duration (fsummary f),
                r_score = (if allZero (scopeVectors sc f ! i) then 0 else 1)\<rparr>
               \<in> set rs)"
proof -
  let ?v = "scopeVectors sc f ! i"
  let ?e = "\<lparr>r_track_id = tid,
             r_position = real i / real (length (scopeVectors sc f)) * duration (fsummary f),
             r_score = (if allZero ?v then 0 else 1)\<rparr>"
  have i: "i < length (scopeVectors sc f)" using assms(6) by (rule refIndex_lt)
  have ref: "refVector f position sc = Some ?v"
    using assms(6) by (simp add: refVector_def)
  have "?e \<in> set (scanTrack st (Some ?v) sc m)"
    using scanTrack_self [where st = st and m = m and f = f and sc = sc and i = i and v = ?v]
      assms(1,3,4,5) i
    by (simp add: cosineSimilarity_self)
  then have scan: "?e \<in> set (searchScan st f position sc)"
    using assms(2) unfolding searchScan_def ref by force
  have res: "searchSimilar st tid position sc k =
        Inr (slice0 k (sortDesc r_score (searchScan st f position sc)))"
    using assms(1) by (simp add: searchSimilar_def loadFeatures_def)
  have "int (length (searchScan st f position sc)) \<le> k \<Longrightarrow>
        ?e \<in> set (slice0 k (sortDesc r_score (searchScan st f position sc)))"
    using scan by (simp add: slice0_all length_sortDesc set_sortDesc)
  with res scan show ?thesis by simp
qed

theorem searchSimilar_scans_query_track_witness:
  "searchSimilar libTwoTracks ''b'' 60 Phrase 10 =
     Inr [\<lparr>r_track_id = ''a'', r_position = 0, r_score = 1\<rparr>,
          \<lparr>r_track_id = ''b'', r_position = 0, r_score = 1\<rparr>,
          \<lparr>r_track_id = ''b'', r_position = 50, r_score = 1\<rparr>,
          \<lparr>r_track_id = ''b'', r_position = 100, r_score = 1\<rparr>,
          \<lparr>r_track_id = ''b'', r_position = 150, r_score = 1\<rparr>]
   \<and> \<lparr>r_track_id = ''b'', r_position = 50, r_score = 1\<rparr>
       \<in> set (searchScan libTwoTracks (trackFeatures summaryB [[1], [1], [1], [1]] [[1], [1], [1], [1]]) 60 Phrase)"
proof -
  let ?f = "trackFeatures summaryB [[1], [1], [1], [1]] [[1], [1], [1], [1]]"
  have 1: "features libTwoTracks ''b'' = Some ?f"
    by (simp add: libTwoTracks_def library_def)
  have 2: "(''b'', readyManifest ''b'' summaryB) \<in> set (manifests libTwoTracks)"
    by (simp add: libTwoTracks_def library_def)
  have 3: "track_id (readyManifest ''b'' summaryB) = ''b''"
    "status (readyManifest ''b'' summaryB) = Ready" "summary (readyManifest ''b'' summaryB) \<noteq> None"
    by (simp_all add: readyManifest_def)
  have 4: "refIndex 60 (duration (fsummary ?f)) (length (scopeVectors Phrase ?f)) = Some 1"
    by (simp add: refIndex_def trackFeatures_def summaryB_def scopeVectors_def Let_def)
  have 5: "searchSimilar libTwoTracks ''b'' 60 Phrase 10 =
     Inr [\<lparr>r_track_id = ''a'', r_position = 0, r_score = 1\<rparr>,
          \<lparr>r_track_id = ''b'', r_position = 0, r_score = 1\<rparr>,
          \<lparr>r_track_id = ''b'', r_position = 50, r_score = 1\<rparr>,
          \<lparr>r_track_id = ''b'', r_position = 100, r_score = 1\<rparr>,
          \<lparr>r_track_id = ''b'', r_position = 150, r_score = 1\<rparr>]"
    by (simp add: ev Let_def)
  from searchSimilar_scans_query_track [OF 1 2 3 4, of 10] 5
  show ?thesis
    by (simp add: trackFeatures_def summaryB_def scopeVectors_def allZero_def)
qed

text \<open>
  C10, as stated, fails on the similarity: a reference vector stored as zeros (the bar
  vector of a window without envelope samples is \<open>[NaN, -Infinity, NaN, NaN]\<close>, written
  as four \<open>null\<close>s) has similarity 0 with itself.
\<close>

theorem searchSimilar_self_score_counterexample:
  "searchSimilar libSilent ''z'' 0 Bar 10 = Inr [\<lparr>r_track_id = ''z'', r_position = 0, r_score = 0\<rparr>]"
  by (simp add: ev Let_def)




subsection \<open>Dimensions of the feature vectors\<close>

lemma length_generateBarVectors: "length (generateBarVectors wave n) = n"
  by (simp add: generateBarVectors_def Let_def)

lemma length_barVector: "length (barVector xs) = 4 + min 124 (length xs)"
  by (simp add: barVector_def Let_def)

lemma window_length:
  assumes "i < n" and "length xs = m"
  shows "length (take (min (i * (m div n) + m div n) m - i * (m div n)) (drop (i * (m div n)) (xs :: 'a list)))
         = m div n"
proof -
  have "(i + 1) * (m div n) \<le> n * (m div n)"
    using assms by (intro mult_right_mono) simp_all
  also have "\<dots> \<le> m" by simp
  finally have "i * (m div n) + m div n \<le> m" by (simp add: algebra_simps)
  then show ?thesis using assms(2) by simp
qed

lemma generateBarVectors_elem_length:
  assumes "v \<in> set (generateBarVectors wave n)"
  shows "length v = 4 + min 124 (length wave div n)"
proof -
  from assms obtain i where i: "i < n"
    and v: "v = barVector (take (min (i * (length wave div n) + length wave div n) (length wave)
                - i * (length wave div n)) (drop (i * (length wave div n)) wave))"
    by (auto simp: generateBarVectors_def Let_def)
  show ?thesis
    unfolding v length_barVector using window_length [OF i refl, of wave] by simp
qed

lemma length_addBar: "length (addBar meanVec bar) = max (length meanVec) (length bar)"
  by (simp add: addBar_def)

lemma length_foldl_addBar:
  "\<forall>b \<in> set bs. length b \<le> length acc \<Longrightarrow> length (foldl addBar acc bs) = length acc"
  by (induction bs arbitrary: acc) (simp_all add: length_addBar max_absorb1)

lemma phraseVector_length:
  assumes "phraseVector bs = Inr v"
  shows "length v = 256"
  using assms by (auto simp: phraseVector_def Let_def split: if_splits)

lemma phraseVector_ok:
  assumes "\<forall>b \<in> set bs. length b \<le> 128"
  shows "\<exists>v. phraseVector bs = Inr v"
  using length_foldl_addBar [of bs "replicate 128 (Some 0)"] assms
  by (simp add: phraseVector_def Let_def)

lemma collect_Inr:
  "collect xs = Inr vs \<Longrightarrow> length vs = length xs \<and> (\<forall>v \<in> set vs. Inr v \<in> set xs)"
  by (induction xs arbitrary: vs) (auto split: sum.splits)

lemma collect_ok: "\<forall>x \<in> set xs. \<exists>v. x = Inr v \<Longrightarrow> \<exists>vs. collect xs = Inr vs"
  by (induction xs) (auto split: sum.splits)

lemma generatePhraseVectors_dimension:
  assumes "generatePhraseVectors bvs p = Inr pvs"
  shows "length pvs = p" and "\<forall>v \<in> set pvs. length v = 256"
proof -
  from collect_Inr [OF assms [unfolded generatePhraseVectors_def Let_def]]
  show "length pvs = p" and "\<forall>v \<in> set pvs. length v = 256"
    by (auto simp: phraseVector_length)
qed

lemma generatePhraseVectors_ok:
  assumes "\<forall>b \<in> set bvs. length b \<le> 128"
  shows "\<exists>pvs. generatePhraseVectors bvs p = Inr pvs"
  unfolding generatePhraseVectors_def Let_def
proof (rule collect_ok, clarsimp)
  fix i assume "i < p"
  have "\<forall>b \<in> set (take (min (i * (length bvs div p) + length bvs div p) (length bvs) - i * (length bvs div p))
            (drop (i * (length bvs div p)) bvs)). length b \<le> 128"
    using assms by (auto dest!: in_set_takeD in_set_dropD)
  then show "\<exists>v. phraseVector (take (min (i * (length bvs div p) + length bvs div p) (length bvs) - i * (length bvs div p))
            (drop (i * (length bvs div p)) bvs)) = Inr v"
    by (rule phraseVector_ok)
qed

text \<open>
  C4.  The number of bar vectors is \<open>bars\<close>, the number of phrase vectors is \<open>phrases\<close>
  and every phrase vector has 256 entries (\<open>generatePhraseVectors_dimension\<close>).  A bar
  vector, however, is not padded: it has 4 entries plus one per envelope sample of its
  window, at most 124.  With the envelope of 80 samples that \<open>analyzeAudioFile\<close>
  always produces, no bar vector has 128 entries: 84 for a single bar, 4 for every
  track of more than 80 bars.
\<close>

theorem generateBarVectors_dimension:
  assumes "v \<in> set (generateBarVectors wave n)"
  shows "length v = 4 + min 124 (length wave div n)"
  using assms by (rule generateBarVectors_elem_length)

theorem generateBarVectors_dimension_witness:
  "generateBarVectors (replicate 80 (Some (1 / 2))) 90 = replicate 90 [None, None, None, None]
   \<and> length [None, None, None, None :: jsnum] = 4 + min 124 (length (replicate 80 (Some (1 / 2 :: real))) div 90)
   \<and> map length (generateBarVectors (replicate 80 (Some (1 / 2))) 1) = [84]"
proof -
  have a: "generateBarVectors (replicate 80 (Some (1 / 2))) 90 = replicate 90 [None, None, None, None]"
    by (simp add: generateBarVectors_def Let_def barVector_def jsSqrt_def jsDivLen_def jsSum_def
        jsMax_def map_replicate_const)
  have b: "map length (generateBarVectors (replicate 80 (Some (1 / 2))) 1) = [84]"
    by (simp add: generateBarVectors_def Let_def length_barVector)
  have "[None, None, None, None] \<in> set (generateBarVectors (replicate 80 (Some (1 / 2))) 90)"
    unfolding a by simp
  from generateBarVectors_dimension [OF this] a b show ?thesis by simp
qed




lemma saveFeatures_counts:
  "\<exists>st' f. saveFeatures st tid s wave = Inr st' \<and> features st' tid = Some f
      \<and> length (barVecs f) = bars s \<and> length (phraseVecs f) = phrases s
      \<and> (\<forall>v \<in> set (phraseVecs f). length v = 256)
      \<and> (\<forall>v \<in> set (barVecs f). length v = 4 + min 124 (length wave div bars s))"
proof -
  have "\<forall>b \<in> set (generateBarVectors wave (bars s)). length b \<le> 128"
    by (auto simp: generateBarVectors_elem_length)
  then obtain pvs where p: "generatePhraseVectors (generateBarVectors wave (bars s)) (phrases s) = Inr pvs"
    using generatePhraseVectors_ok by blast
  from generatePhraseVectors_dimension [OF p] show ?thesis
    by (auto simp: saveFeatures_def Let_def p length_generateBarVectors
        generateBarVectors_elem_length)
qed

subsection \<open>Determinism of the analysis\<close>

lemma analyzeAudioFile_key:
  "analyzeAudioFile env draws = Inr fs \<Longrightarrow> af_key fs = estimateKey draws"
  by (auto simp: analyzeAudioFile_def Let_def split: sum.splits)

text \<open>
  C1.  The analysis is not a function of the audio file: the key is
  \<open>camelotKeys[Math.floor(Math.random() * 24)]\<close>, whatever the file, and the tempo is
  \<open>120 + Math.random() * 20\<close> unless the error stream of the tempo run carries a BPM.
  Two analyses of the same file, with the draws 0 and 0.5, return the keys \<open>1A\<close> and
  \<open>7A\<close> and the tempi 120 and 130.
\<close>

theorem analyzeAudioFile_depends_on_random_draws:
  "map_sum id (\<lambda>fs. (af_key fs, af_tempo_bpm fs))
     (analyzeAudioFile audioEnv \<lparr>bpmDraw = 0, keyDraw = 0, waveDraws = []\<rparr>) = Inr (''1A'', 120)
   \<and> map_sum id (\<lambda>fs. (af_key fs, af_tempo_bpm fs))
     (analyzeAudioFile audioEnv \<lparr>bpmDraw = 1 / 2, keyDraw = 1 / 2, waveDraws = []\<rparr>) = Inr (''7A'', 130)"
  by (simp add: analyzeAudioFile_def audioEnv_def getAudioMetadata_def generateWaveform_def
      estimateBPM_def estimateKey_def camelotKeys_def mathRound_def Let_def)




subsection \<open>The analysis worker\<close>

lemma map_of_setKey_same: "map_of (setKey k v xs) k = Some v"
  by (induction xs) auto

lemma map_of_setKey_other: "k' \<noteq> k \<Longrightarrow> map_of (setKey k v xs) k' = map_of xs k'"
  by (induction xs) auto

lemma getManifest_saveManifest: "getManifest (saveManifest st m) (track_id m) = Some m"
  by (simp add: getManifest_def saveManifest_def map_of_setKey_same)

lemma analyzeTrack_fail:
  "analyzeAudioFile env draws = Inl e \<Longrightarrow> analyzeTrack st tid env draws = (Inl e, st)"
  by (simp add: analyzeTrack_def)

lemma saveFeatures_manifests:
  "saveFeatures st tid s wave = Inr st' \<Longrightarrow> manifests st' = manifests st"
  by (auto simp: saveFeatures_def Let_def split: sum.splits)

lemma analyzeTrack_ok:
  assumes "analyzeAudioFile env draws = Inr fs"
  shows "\<exists>s st'. analyzeTrack st tid env draws = (Inr s, st') \<and> manifests st' = manifests st"
proof -
  let ?s = "\<lparr>tempo_bpm = af_tempo_bpm fs, key = af_key fs, energy = stored (af_energy fs),
             duration = af_duration fs, phrases = af_phrases fs, bars = af_bars fs\<rparr>"
  from saveFeatures_counts [of st tid ?s "af_waveform fs"]
  obtain st' where st': "saveFeatures st tid ?s (af_waveform fs) = Inr st'" by blast
  then have "manifests st' = manifests st" by (rule saveFeatures_manifests)
  with st' assms show ?thesis by (simp add: analyzeTrack_def Let_def)
qed

lemma analyzeHandler_fail:
  assumes "getManifest (storage w) (d_track_id data) = Some m" "track_id m = d_track_id data"
    "status m \<noteq> Ready" and "analysisResult w (runs w) = Inl e"
  shows "\<exists>w'. analyzeHandler w data = (Inl e, w')
           \<and> queue w' = queue w \<and> timers w' = timers w \<and> clock w' = clock w
           \<and> analysis w' = analysis w \<and> runs w' = runs w + 1
           \<and> (\<exists>m'. getManifest (storage w') (d_track_id data) = Some m' \<and> track_id m' = d_track_id data
                 \<and> status m' = Error \<and> error_reason m' = Some (failureReason e))"
proof -
  obtain env draws where ed: "analysis w (runs w) = (env, draws)" by (cases "analysis w (runs w)")
  with assms(4) have "analyzeAudioFile env draws = Inl e" by (simp add: analysisResult_def)
  then have at: "\<And>st. analyzeTrack st (d_track_id data) env draws = (Inl e, st)" by (rule analyzeTrack_fail)
  let ?m2 = "m\<lparr>status := Error, error_reason := Some (failureReason e), updated_at := clock w\<rparr>"
  have "getManifest (saveManifest (saveManifest (storage w) (m\<lparr>status := Processing, updated_at := clock w\<rparr>))
          (m\<lparr>status := Processing, updated_at := clock w, status := Error,
             error_reason := Some (failureReason e), updated_at := clock w\<rparr>)) (d_track_id data)
        = Some (m\<lparr>status := Processing, updated_at := clock w, status := Error,
             error_reason := Some (failureReason e), updated_at := clock w\<rparr>)"
    using getManifest_saveManifest [of _ "m\<lparr>status := Processing, updated_at := clock w, status := Error,
             error_reason := Some (failureReason e), updated_at := clock w\<rparr>"] assms(2)
    by (simp add:)
  then show ?thesis
    using assms(1,2,3) by (simp add: analyzeHandler_def Let_def ed at)
qed

lemma analyzeHandler_ok:
  assumes "getManifest (storage w) (d_track_id data) = Some m" "track_id m = d_track_id data"
    "status m \<noteq> Ready" and "analysisResult w (runs w) = Inr fs"
  shows "\<exists>w'. analyzeHandler w data = (Inr (), w')
           \<and> queue w' = queue w \<and> timers w' = timers w \<and> clock w' = clock w
           \<and> analysis w' = analysis w \<and> runs w' = runs w + 1
           \<and> (\<exists>m'. getManifest (storage w') (d_track_id data) = Some m' \<and> track_id m' = d_track_id data
                 \<and> status m' = Ready \<and> summary m' \<noteq> None)"
proof -
  obtain env draws where ed: "analysis w (runs w) = (env, draws)" by (cases "analysis w (runs w)")
  with assms(4) have ok: "analyzeAudioFile env draws = Inr fs" by (simp add: analysisResult_def)
  let ?m1 = "m\<lparr>status := Processing, updated_at := clock w\<rparr>"
  from analyzeTrack_ok [OF ok, of "saveManifest (storage w) ?m1" "d_track_id data"]
  obtain s st' where at: "analyzeTrack (saveManifest (storage w) ?m1) (d_track_id data) env draws = (Inr s, st')"
    by blast
  let ?m2 = "?m1\<lparr>status := Ready, summary := Some s, updated_at := clock w\<rparr>"
  have "getManifest (saveManifest st' ?m2) (d_track_id data) = Some ?m2"
    using getManifest_saveManifest [of st' ?m2] assms(2) by (simp add:)
  then show ?thesis
    using assms(1,2,3) by (simp add: analyzeHandler_def Let_def ed at)
qed


lemma process_single_fail:
  assumes "readyToRun w job tid" and "analysisResult w (runs w) = Inl e"
  shows "\<exists>w'. process w = w' \<and> jobs (queue w') = [] \<and> \<not> processing (queue w')
           \<and> handlers (queue w') = handlers (queue w) \<and> analysis w' = analysis w
           \<and> clock w' = clock w \<and> runs w' = runs w + 1
           \<and> timers w' = (if retries job < 3
                           then [(clock w + 2 ^ (retries job + 1) * 1000,
                                  job\<lparr>retries := retries job + 1\<rparr>)]
                           else [])
           \<and> (\<exists>m'. getManifest (storage w') tid = Some m' \<and> track_id m' = tid
                 \<and> status m' = Error \<and> error_reason m' = Some (failureReason e))"
proof -
  let ?w0 = "w\<lparr>queue := (queue w)\<lparr>jobs := []\<rparr>\<rparr>"
  from assms(1) obtain m where m: "getManifest (storage ?w0) (d_track_id (job_data job)) = Some m"
      "track_id m = d_track_id (job_data job)" "status m \<noteq> Ready"
    and tid: "d_track_id (job_data job) = tid"
    by (auto simp: readyToRun_def)
  have "analysisResult ?w0 (runs ?w0) = Inl e"
    using assms(2) by (simp add: analysisResult_def)
  from analyzeHandler_fail [OF m this, unfolded tid] obtain w1 where
    h: "analyzeHandler ?w0 (job_data job) = (Inl e, w1)"
    and f: "queue w1 = queue ?w0" "timers w1 = timers ?w0" "clock w1 = clock ?w0"
      "analysis w1 = analysis ?w0" "runs w1 = runs ?w0 + 1"
    and mm: "\<exists>m'. getManifest (storage w1) tid = Some m' \<and> track_id m' = tid
                 \<and> status m' = Error \<and> error_reason m' = Some (failureReason e)"
    by blast
  have "process w = processJob job ?w0"
    using assms(1) by (simp add: process_def readyToRun_def)
  also have "\<dots> = (if retries job < 3
        then w1\<lparr>timers := timers w1 @ [(clock w1 + 2 ^ (retries job + 1) * 1000,
                                        job\<lparr>retries := retries job + 1\<rparr>)]\<rparr>
        else w1)"
    using assms(1) h by (simp add: processJob_def runHandler_def readyToRun_def Let_def)
  finally show ?thesis
    using f mm assms(1) by (simp add: readyToRun_def)
qed

lemma process_single_ok:
  assumes "readyToRun w job tid" and "analysisResult w (runs w) = Inr fs"
  shows "\<exists>w'. process w = w' \<and> jobs (queue w') = [] \<and> \<not> processing (queue w')
           \<and> analysis w' = analysis w \<and> clock w' = clock w \<and> runs w' = runs w + 1
           \<and> timers w' = []
           \<and> (\<exists>m'. getManifest (storage w') tid = Some m' \<and> track_id m' = tid
                 \<and> status m' = Ready \<and> summary m' \<noteq> None)"
proof -
  let ?w0 = "w\<lparr>queue := (queue w)\<lparr>jobs := []\<rparr>\<rparr>"
  from assms(1) obtain m where m: "getManifest (storage ?w0) (d_track_id (job_data job)) = Some m"
      "track_id m = d_track_id (job_data job)" "status m \<noteq> Ready"
    and tid: "d_track_id (job_data job) = tid"
    by (auto simp: readyToRun_def)
  have "analysisResult ?w0 (runs ?w0) = Inr fs"
    using assms(2) by (simp add: analysisResult_def)
  from analyzeHandler_ok [OF m this, unfolded tid] obtain w1 where
    h: "analyzeHandler ?w0 (job_data job) = (Inr (), w1)"
    and f: "queue w1 = queue ?w0" "timers w1 = timers ?w0" "clock w1 = clock ?w0"
      "analysis w1 = analysis ?w0" "runs w1 = runs ?w0 + 1"
    and mm: "\<exists>m'. getManifest (storage w1) tid = Some m' \<and> track_id m' = tid
                 \<and> status m' = Ready \<and> summary m' \<noteq> None"
    by blast
  have "process w = processJob job ?w0"
    using assms(1) by (simp add: process_def readyToRun_def)
  also have "\<dots> = w1"
    using assms(1) h by (simp add: processJob_def runHandler_def readyToRun_def)
  finally show ?thesis
    using f mm assms(1) by (simp add: readyToRun_def)
qed


lemma runTimers_none: "timers w = [] \<Longrightarrow> runTimers w = w"
  by (subst runTimers.simps) simp

lemma runTimers_single:
  assumes "timers w = [t]" "jobs (queue w) = []"
  shows "runTimers w =
         runTimers (process (w\<lparr>timers := [], clock := max (clock w) (fst t),
                                queue := (queue w)\<lparr>jobs := [snd t]\<rparr>\<rparr>))"
  using assms by (subst runTimers.simps) (simp add: fireTimer_def)

lemma analysisResult_cong:
  "analysis w' = analysis w \<Longrightarrow> analysisResult w' n = analysisResult w n"
  by (simp add: analysisResult_def)

lemma retries_exhausted:
  assumes "readyToRun w job tid" and "n = 3 - retries job" and "retries job \<le> 3"
    and "\<forall>i \<le> n. isl (analysisResult w (runs w + i))"
  shows "runs (runTimers (process w)) = runs w + n + 1
       \<and> timers (runTimers (process w)) = []
       \<and> clock (runTimers (process w)) = clock w + backoffTotal (retries job) n
       \<and> (\<exists>m'. getManifest (storage (runTimers (process w))) tid = Some m'
             \<and> status m' = Error \<and> error_reason m' \<noteq> None)"
  using assms
proof (induction n arbitrary: w job)
  case 0
  then have r: "retries job = 3" by simp
  from 0(4) obtain e where "analysisResult w (runs w) = Inl e"
    by (auto simp: isl_def)
  from process_single_fail [OF 0(1) this] r
  have p: "jobs (queue (process w)) = []" "runs (process w) = runs w + 1" "timers (process w) = []"
    "clock (process w) = clock w"
    "\<exists>m'. getManifest (storage (process w)) tid = Some m' \<and> status m' = Error \<and> error_reason m' \<noteq> None"
    by auto
  then show ?case by (simp add: runTimers_none)
next
  case (Suc n)
  then have r: "retries job < 3" "n = 3 - (retries job + 1)" by simp_all
  from Suc(5) obtain e where "analysisResult w (runs w) = Inl e"
    by (force simp: isl_def)
  from process_single_fail [OF Suc(2) this] r(1)
  obtain m' where p: "jobs (queue (process w)) = []" "\<not> processing (queue (process w))"
    "handlers (queue (process w)) = handlers (queue w)" "analysis (process w) = analysis w"
    "clock (process w) = clock w" "runs (process w) = runs w + 1"
    "timers (process w) = [(clock w + 2 ^ (retries job + 1) * 1000, job\<lparr>retries := retries job + 1\<rparr>)]"
    "getManifest (storage (process w)) tid = Some m'" "track_id m' = tid" "status m' = Error"
    by auto
  let ?job = "job\<lparr>retries := retries job + 1\<rparr>"
  let ?w2 = "(process w)\<lparr>timers := [],
                clock := max (clock (process w)) (clock w + 2 ^ (retries job + 1) * 1000),
                queue := (queue (process w))\<lparr>jobs := [?job]\<rparr>\<rparr>"
  have step: "runTimers (process w) = runTimers (process ?w2)"
    using runTimers_single [OF p(7) p(1)] by simp
  have ready: "readyToRun ?w2 ?job tid"
    using Suc(2) p by (simp add: readyToRun_def)
  have fails: "\<forall>i \<le> n. isl (analysisResult ?w2 (runs ?w2 + i))"
  proof (intro allI impI)
    fix i assume "i \<le> n"
    then have "Suc i \<le> Suc n" by simp
    with Suc(5) have "isl (analysisResult w (runs w + Suc i))" by blast
    moreover have "analysisResult ?w2 (runs ?w2 + i) = analysisResult w (runs w + Suc i)"
      using p(4,6) by (simp add: analysisResult_def)
    ultimately show "isl (analysisResult ?w2 (runs ?w2 + i))" by simp
  qed
  from Suc.IH [OF ready _ _ fails] r
  have "runs (runTimers (process ?w2)) = runs ?w2 + n + 1
       \<and> timers (runTimers (process ?w2)) = []
       \<and> clock (runTimers (process ?w2)) = clock ?w2 + backoffTotal (retries job + 1) n
       \<and> (\<exists>m'. getManifest (storage (runTimers (process ?w2))) tid = Some m'
             \<and> status m' = Error \<and> error_reason m' \<noteq> None)"
    by simp
  then show ?case
    unfolding step using p(5,6) by simp
qed

lemma retry_then_success:
  assumes "readyToRun w job tid" and "retries job + k \<le> 3"
    and "\<forall>i < k. isl (analysisResult w (runs w + i))"
    and "\<not> isl (analysisResult w (runs w + k))"
  shows "runs (runTimers (process w)) = runs w + k + 1
       \<and> timers (runTimers (process w)) = []
       \<and> clock (runTimers (process w)) = clock w + backoffTotal (retries job) k
       \<and> (\<exists>m'. getManifest (storage (runTimers (process w))) tid = Some m'
             \<and> status m' = Ready \<and> summary m' \<noteq> None)"
  using assms
proof (induction k arbitrary: w job)
  case 0
  from 0(4) obtain fs where "analysisResult w (runs w) = Inr fs"
    by (cases "analysisResult w (runs w)") simp_all
  from process_single_ok [OF 0(1) this]
  have p: "jobs (queue (process w)) = []" "runs (process w) = runs w + 1" "timers (process w) = []"
    "clock (process w) = clock w"
    "\<exists>m'. getManifest (storage (process w)) tid = Some m' \<and> status m' = Ready \<and> summary m' \<noteq> None"
    by auto
  then show ?case by (simp add: runTimers_none)
next
  case (Suc k)
  then have r: "retries job < 3" "retries job + 1 + k \<le> 3" by simp_all
  from Suc(4) obtain e where "analysisResult w (runs w) = Inl e"
    by (force simp: isl_def)
  from process_single_fail [OF Suc(2) this] r(1)
  obtain m' where p: "jobs (queue (process w)) = []" "\<not> processing (queue (process w))"
    "handlers (queue (process w)) = handlers (queue w)" "analysis (process w) = analysis w"
    "clock (process w) = clock w" "runs (process w) = runs w + 1"
    "timers (process w) = [(clock w + 2 ^ (retries job + 1) * 1000, job\<lparr>retries := retries job + 1\<rparr>)]"
    "getManifest (storage (process w)) tid = Some m'" "track_id m' = tid" "status m' = Error"
    by auto
  let ?job = "job\<lparr>retries := retries job + 1\<rparr>"
  let ?w2 = "(process w)\<lparr>timers := [],
                clock := max (clock (process w)) (clock w + 2 ^ (retries job + 1) * 1000),
                queue := (queue (process w))\<lparr>jobs := [?job]\<rparr>\<rparr>"
  have step: "runTimers (process w) = runTimers (process ?w2)"
    using runTimers_single [OF p(7) p(1)] by simp
  have ready: "readyToRun ?w2 ?job tid"
    using Suc(2) p by (simp add: readyToRun_def)
  have eq: "\<And>i. analysisResult ?w2 (runs ?w2 + i) = analysisResult w (runs w + Suc i)"
    using p(4,6) by (simp add: analysisResult_def)
  have fails: "\<forall>i < k. isl (analysisResult ?w2 (runs ?w2 + i))"
  proof (intro allI impI)
    fix i assume "i < k"
    then have "Suc i < Suc k" by simp
    with Suc(4) have "isl (analysisResult w (runs w + Suc i))" by blast
    then show "isl (analysisResult ?w2 (runs ?w2 + i))" unfolding eq .
  qed
  have ok: "\<not> isl (analysisResult ?w2 (runs ?w2 + k))"
    using Suc(5) unfolding eq by simp
  from Suc.IH [OF ready _ fails ok] r
  have "runs (runTimers (process ?w2)) = runs ?w2 + k + 1
       \<and> timers (runTimers (process ?w2)) = []
       \<and> clock (runTimers (process ?w2)) = clock ?w2 + backoffTotal (retries job + 1) k
       \<and> (\<exists>m'. getManifest (storage (runTimers (process ?w2))) tid = Some m'
             \<and> status m' = Ready \<and> summary m' \<noteq> None)"
    by simp
  then show ?case
    unfolding step using p(5,6) by simp
qed


lemma publish_readyToRun:
  assumes "jobs (queue w) = []" "\<not> processing (queue w)" "timers w = []"
    "handlers (queue w) ''analyze'' = Some AnalyzeHandler"
    and "getManifest (storage w) tid = Some m" "track_id m = tid" "status m \<noteq> Ready"
  shows "\<exists>w0 job. publish w ''analyze'' \<lparr>d_track_id = tid, d_path = p\<rparr> jid = process w0
           \<and> readyToRun w0 job tid \<and> retries job = 0
           \<and> runs w0 = runs w \<and> clock w0 = clock w \<and> analysis w0 = analysis w"
proof -
  let ?job = "\<lparr>job_type = ''analyze'', job_data = \<lparr>d_track_id = tid, d_path = p\<rparr>,
               job_id = jid, createdAt = clock w, retries = 0\<rparr>"
  let ?w0 = "w\<lparr>queue := (queue w)\<lparr>jobs := jobs (queue w) @ [?job]\<rparr>\<rparr>"
  have "publish w ''analyze'' \<lparr>d_track_id = tid, d_path = p\<rparr> jid = process ?w0"
    by (simp add: publish_def Let_def)
  moreover have "readyToRun ?w0 ?job tid"
    using assms by (simp add: readyToRun_def)
  ultimately show ?thesis
    by (intro exI [of _ ?w0] exI [of _ ?job]) simp
qed

lemma backoffTotal_0_3: "backoffTotal 0 3 = 2000 + 4000 + 8000"
  by (simp add: numeral_3_eq_3)

text \<open>
  C6 (amended).  For a job published on an idle queue for a track that is not ready:
  a failed run is retried after \<open>2\<^sup>r\<close> seconds, where \<open>r\<close> is the retry count after
  counting the failed run (2 s, 4 s, 8 s), at most 3 times.  When the first 4 analyses
  fail, the handler has run 4 times, no retry is pending after 14 s, and the manifest
  is in the status \<open>error\<close> with a reason.  When the first \<open>k \<le> 3\<close> analyses fail and
  the next succeeds, the handler has run \<open>k + 1\<close> times and the manifest is \<open>ready\<close>
  with a summary; \<open>k = 2\<close> is the case of the claim.
\<close>

theorem retry_policy:
  assumes "jobs (queue w) = []" and "\<not> processing (queue w)" and "timers w = []"
    and "handlers (queue w) ''analyze'' = Some AnalyzeHandler"
    and "getManifest (storage w) tid = Some m" and "track_id m = tid" and "status m \<noteq> Ready"
  shows "let w' = runTimers (publish w ''analyze'' \<lparr>d_track_id = tid, d_path = p\<rparr> jid) in
           ((\<forall>i \<le> 3. isl (analysisResult w (runs w + i))) \<longrightarrow>
              runs w' = runs w + 4 \<and> timers w' = [] \<and> clock w' = clock w + (2000 + 4000 + 8000)
              \<and> (\<exists>m'. getManifest (storage w') tid = Some m' \<and> status m' = Error
                    \<and> error_reason m' \<noteq> None))
         \<and> (\<forall>k \<le> 3. (\<forall>i < k. isl (analysisResult w (runs w + i)))
                      \<and> \<not> isl (analysisResult w (runs w + k)) \<longrightarrow>
              runs w' = runs w + k + 1 \<and> timers w' = [] \<and> clock w' = clock w + backoffTotal 0 k
              \<and> (\<exists>m'. getManifest (storage w') tid = Some m' \<and> status m' = Ready
                    \<and> summary m' \<noteq> None))"
proof -
  from publish_readyToRun [OF assms, of p jid] obtain w0 job where
    pub: "publish w ''analyze'' \<lparr>d_track_id = tid, d_path = p\<rparr> jid = process w0"
    and ready: "readyToRun w0 job tid" and r: "retries job = 0"
    and f: "runs w0 = runs w" "clock w0 = clock w" "analysis w0 = analysis w"
    by blast
  have eq: "\<And>n. analysisResult w0 n = analysisResult w n"
    using f(3) by (simp add: analysisResult_def)
  have a: "runs (runTimers (process w0)) = runs w + 4 \<and> timers (runTimers (process w0)) = []
        \<and> clock (runTimers (process w0)) = clock w + (2000 + 4000 + 8000)
        \<and> (\<exists>m'. getManifest (storage (runTimers (process w0))) tid = Some m' \<and> status m' = Error
                    \<and> error_reason m' \<noteq> None)"
    if "\<forall>i \<le> 3. isl (analysisResult w (runs w + i))"
    using retries_exhausted [OF ready, of 3] that r f
    by (simp add: eq backoffTotal_0_3)
  have b: "runs (runTimers (process w0)) = runs w + k + 1 \<and> timers (runTimers (process w0)) = []
        \<and> clock (runTimers (process w0)) = clock w + backoffTotal 0 k
        \<and> (\<exists>m'. getManifest (storage (runTimers (process w0))) tid = Some m' \<and> status m' = Ready
                    \<and> summary m' \<noteq> None)"
    if "k \<le> 3" "\<forall>i < k. isl (analysisResult w (runs w + i))" "\<not> isl (analysisResult w (runs w + k))"
    for k
    using retry_then_success [OF ready, of k] that r f
    by (simp add: eq)
  show ?thesis
    unfolding Let_def pub
  proof (rule conjI)
    show "(\<forall>i \<le> 3. isl (analysisResult w (runs w + i))) \<longrightarrow>
        runs (runTimers (process w0)) = runs w + 4 \<and> timers (runTimers (process w0)) = []
        \<and> clock (runTimers (process w0)) = clock w + (2000 + 4000 + 8000)
        \<and> (\<exists>m'. getManifest (storage (runTimers (process w0))) tid = Some m' \<and> status m' = Error
                    \<and> error_reason m' \<noteq> None)"
      by (rule impI) (rule a)
    show "\<forall>k \<le> 3. (\<forall>i < k. isl (analysisResult w (runs w + i)))
                      \<and> \<not> isl (analysisResult w (runs w + k)) \<longrightarrow>
        runs (runTimers (process w0)) = runs w + k + 1 \<and> timers (runTimers (process w0)) = []
        \<and> clock (runTimers (process w0)) = clock w + backoffTotal 0 k
        \<and> (\<exists>m'. getManifest (storage (runTimers (process w0))) tid = Some m' \<and> status m' = Ready
                    \<and> summary m' \<noteq> None)"
    proof (rule allI, rule impI, rule impI)
      fix k
      assume k: "k \<le> 3"
        and h: "(\<forall>i < k. isl (analysisResult w (runs w + i))) \<and> \<not> isl (analysisResult w (runs w + k))"
      from h have h1: "\<forall>i < k. isl (analysisResult w (runs w + i))"
        and h2: "\<not> isl (analysisResult w (runs w + k))" by simp_all
      show "runs (runTimers (process w0)) = runs w + k + 1 \<and> timers (runTimers (process w0)) = []
        \<and> clock (runTimers (process w0)) = clock w + backoffTotal 0 k
        \<and> (\<exists>m'. getManifest (storage (runTimers (process w0))) tid = Some m' \<and> status m' = Ready
                    \<and> summary m' \<noteq> None)"
        by (rule b [OF k h1 h2])
    qed
  qed
qed




lemma workerWorld_idle:
  "jobs (queue (workerWorld s f)) = []" "\<not> processing (queue (workerWorld s f))"
  "timers (workerWorld s f) = []"
  "handlers (queue (workerWorld s f)) ''analyze'' = Some AnalyzeHandler"
  "getManifest (storage (workerWorld s f)) ''t1'' = Some (queuedManifest ''t1'' s)"
  "track_id (queuedManifest ''t1'' s) = ''t1''"
  "status (queuedManifest ''t1'' s) = s"
  "runs (workerWorld s f) = 0" "clock (workerWorld s f) = 0"
  by (simp_all add: workerWorld_def queuedManifest_def getManifest_def)

lemma analysisResult_failsFirst:
  "isl (analysisResult (workerWorld s (failsFirst k)) n) \<longleftrightarrow> n < k"
  by (simp add: analysisResult_def workerWorld_def failsFirst_def analyzeAudioFile_def
      getAudioMetadata_def failingEnv_def audioEnv_def generateWaveform_def Let_def)

theorem retry_policy_witness:
  "runs (runTimers (publish (workerWorld Queued (failsFirst 4)) ''analyze'' t1Job ''job-1'')) = 4
   \<and> clock (runTimers (publish (workerWorld Queued (failsFirst 4)) ''analyze'' t1Job ''job-1'')) = 14000
   \<and> map_option status (getManifest (storage
        (runTimers (publish (workerWorld Queued (failsFirst 4)) ''analyze'' t1Job ''job-1''))) ''t1'')
       = Some Error
   \<and> runs (runTimers (publish (workerWorld Queued (failsFirst 2)) ''analyze'' t1Job ''job-1'')) = 3
   \<and> clock (runTimers (publish (workerWorld Queued (failsFirst 2)) ''analyze'' t1Job ''job-1'')) = 6000
   \<and> map_option status (getManifest (storage
        (runTimers (publish (workerWorld Queued (failsFirst 2)) ''analyze'' t1Job ''job-1''))) ''t1'')
       = Some Ready"
proof -
  have s: "status (queuedManifest ''t1'' Queued) \<noteq> Ready" by (simp add: queuedManifest_def)
  have t: "\<lparr>d_track_id = ''t1'', d_path = d_path t1Job\<rparr> = t1Job" by (simp add: t1Job_def)
  note a = retry_policy [OF workerWorld_idle(1-6) s, of "failsFirst 4" "d_path t1Job" "''job-1''",
      unfolded Let_def t, THEN conjunct1]
  note b = retry_policy [OF workerWorld_idle(1-6) s, of "failsFirst 2" "d_path t1Job" "''job-1''",
      unfolded Let_def t, THEN conjunct2, THEN spec, of 2]
  have ha: "\<forall>i \<le> 3. isl (analysisResult (workerWorld Queued (failsFirst 4))
                          (runs (workerWorld Queued (failsFirst 4)) + i))"
    by (simp add: analysisResult_failsFirst workerWorld_idle)
  have A: "runs (runTimers (publish (workerWorld Queued (failsFirst 4)) ''analyze'' t1Job ''job-1'')) = 4
   \<and> clock (runTimers (publish (workerWorld Queued (failsFirst 4)) ''analyze'' t1Job ''job-1'')) = 14000
   \<and> map_option status (getManifest (storage
        (runTimers (publish (workerWorld Queued (failsFirst 4)) ''analyze'' t1Job ''job-1''))) ''t1'')
       = Some Error"
    using a ha by (auto simp: workerWorld_idle)
  have hb: "(\<forall>i < 2. isl (analysisResult (workerWorld Queued (failsFirst 2))
                          (runs (workerWorld Queued (failsFirst 2)) + i)))
        \<and> \<not> isl (analysisResult (workerWorld Queued (failsFirst 2))
                          (runs (workerWorld Queued (failsFirst 2)) + 2))"
    by (simp add: analysisResult_failsFirst workerWorld_idle)
  have B: "runs (runTimers (publish (workerWorld Queued (failsFirst 2)) ''analyze'' t1Job ''job-1'')) = 3
   \<and> clock (runTimers (publish (workerWorld Queued (failsFirst 2)) ''analyze'' t1Job ''job-1'')) = 6000
   \<and> map_option status (getManifest (storage
        (runTimers (publish (workerWorld Queued (failsFirst 2)) ''analyze'' t1Job ''job-1''))) ''t1'')
       = Some Ready"
    using b hb by (auto simp: workerWorld_idle numeral_2_eq_2)
  from A B show ?thesis by simp
qed


text \<open>
  C6, as stated, fails: a handler that fails 3 consecutive times is run a 4th time
  (the third retry, 8 s after the third failure), and when that run succeeds the
  manifest ends in the status \<open>ready\<close>, not \<open>error\<close>.
\<close>

theorem three_failures_retried_counterexample:
  "runs (runTimers (publish (workerWorld Queued (failsFirst 3)) ''analyze'' t1Job ''job-1'')) = 4
   \<and> map_option status (getManifest (storage
        (runTimers (publish (workerWorld Queued (failsFirst 3)) ''analyze'' t1Job ''job-1''))) ''t1'')
       = Some Ready"
proof -
  let ?w = "workerWorld Queued (failsFirst 3)"
  have s: "status (queuedManifest ''t1'' Queued) \<noteq> Ready" by (simp add: queuedManifest_def)
  have t: "\<lparr>d_track_id = ''t1'', d_path = d_path t1Job\<rparr> = t1Job" by (simp add: t1Job_def)
  from publish_readyToRun [OF workerWorld_idle(1-6) s, of "failsFirst 3" "d_path t1Job" "''job-1''"]
  obtain w0 job where
    pub: "publish ?w ''analyze'' t1Job ''job-1'' = process w0"
    and ready: "readyToRun w0 job ''t1''" and r: "retries job = 0"
    and f: "runs w0 = runs ?w" "analysis w0 = analysis ?w"
    unfolding t by blast
  have eq: "\<And>n. analysisResult w0 n = analysisResult ?w n"
    using f(2) by (simp add: analysisResult_def)
  have "runs w0 = 0" using f(1) by (simp add: workerWorld_idle)
  then have "\<forall>i < 3. isl (analysisResult w0 (runs w0 + i))"
    and "\<not> isl (analysisResult w0 (runs w0 + 3))"
    by (simp_all add: eq analysisResult_failsFirst)
  from retry_then_success [OF ready _ this] r \<open>runs w0 = 0\<close>
  show ?thesis unfolding pub by auto
qed

subsection \<open>Idempotency of the handler\<close>





subsection \<open>Deduplication of uploads\<close>






















subsection \<open>Evaluating SHA-256\<close>




















end
